theory Spec2Isabelle
  imports Complex_Main
begin

section \<open>The effect manager of RediculousCoding (src/effects/EffectManager.ts)\<close>

text \<open>
  The class \<^verbatim>\<open>EffectManager\<close> keeps per-editor state in a WeakMap, drives everything by
  \<^verbatim>\<open>setTimeout\<close> callbacks and talks to the host editor through \<^verbatim>\<open>setDecorations\<close>.
  The embedding is one record \<open>World\<close>: the fields of the manager, the pending timers
  and promise continuations of the JavaScript event loop, and the part of the host editor
  the code reads and writes. Every method is a function on \<open>World\<close>; a method that can
  throw returns an \<open>Outcome\<close> that keeps the mutations made before the throw, as a
  JavaScript exception does.

  Conventions.
  \<^item> Editors are identified by a number (\<open>view\<close>); \<^verbatim>\<open>getEditorState\<close> creates the
    default state on first use and nothing else observes whether an entry exists, so
    \<open>editorStates\<close> is a total function that starts at the default state.
  \<^item> Millisecond values (\<^verbatim>\<open>Date.now()\<close>, delays, configuration numbers) are integers;
    one synchronous run of the code sees one clock value.
  \<^item> Objects compared by identity (\<^verbatim>\<open>x.opt === opt\<close>) carry a number \<open>ident\<close>, taken
    from a counter when the object is created.
  \<^item> The CSS strings, colours and SVG data URIs the code builds from floating-point
    values are not part of the model: a decoration is recorded by what it shows (marker,
    text label, sprite frame) and, for the combo animation, by the age and TTL the last
    tick computed its transform from.
  \<^item> \<^verbatim>\<open>Math.random()\<close> is an input: the rounded displacement \<open>(dx, dy)\<close> of a shake
    frame comes with the event.
  \<^item> The numbers of the sprite decoder and player are doubles: a sum or a quotient is
    the exact result rounded to the nearest double.
  \<^item> The host editor and the configuration are outside the source. What the host does
    with a call on a closed editor is a parameter of the model (\<open>strictHost\<close>), and
    every event comes with the configuration and the asset files in force when it is
    handled.
\<close>

subsection \<open>Data\<close>

datatype EffectKind = Blip | Boom | Newline

type_synonym view = nat
type_synonym timer = nat
type_synonym position = "nat \<times> nat"

datatype DecorationType =
    BlipDecoration | BoomDecoration | NewlineDecoration | AnimDecoration
  | JitterLeft | JitterRight
  | ShakeDecoration int int

datatype Content = Marker | TextLabel string

record DecorationOptions =
  ident :: nat
  range :: position
  content :: Content
  transform :: "(int \<times> int) option"

record BufItem =
  opt :: DecorationOptions
  createdAt :: int

text \<open>What one \<^verbatim>\<open>setDecorations\<close> call hands to the host: decoration options of the
  combo buffer, one sprite frame (kind, frame index, caret range), or whole-line ranges
  (line, end character) for the shake.\<close>

datatype Item =
    OptItem DecorationOptions
  | FrameItem EffectKind nat position
  | LineItem nat nat

record EditorState =
  lastBlipAt :: int
  lastBoomAt :: int
  activeDecorations :: "EffectKind \<Rightarrow> int"
  buffers :: "EffectKind \<Rightarrow> BufItem list"
  animTimers :: "EffectKind \<Rightarrow> timer option"
  shakeTimer :: "timer option"
  activeShakeDecoKey :: "(int \<times> int) option"
  shakeEndAt :: "int option"

text \<open>JavaScript numbers are IEEE 754 doubles: NaN, a rational, or an infinity
  (\<open>Infinity True\<close> is the positive one). The sign of a zero is not kept: nothing the
  model computes tells \<^verbatim>\<open>-0\<close> from \<^verbatim>\<open>0\<close>.\<close>

datatype num = NaN | Num rat | Infinity bool

record Rect =
  rx :: num
  ry :: num
  rw :: num
  rh :: num

record SpriteData =
  frames :: "Rect list"
  sheetW :: num
  sheetH :: num
  fps :: num
  pngBase64 :: string
  frameUris :: "(Rect \<times> num \<times> num) list"

text \<open>The closures handed to \<^verbatim>\<open>setTimeout\<close>, with the variables they capture:
  \<^item> \<open>Tick\<close>: the \<^verbatim>\<open>tick\<close> of \<^verbatim>\<open>ensureAnimating\<close> (editor, kind);
  \<^item> \<open>Expire\<close>: the removal scheduled by \<^verbatim>\<open>applyOnce\<close> (editor, kind, the \<^verbatim>\<open>opt\<close> object);
  \<^item> \<open>Step\<close>: the \<^verbatim>\<open>step\<close> of \<^verbatim>\<open>playSpriteAnim\<close> (editor, kind, the run table object,
    \<^verbatim>\<open>total\<close>, \<^verbatim>\<open>frameMs\<close>, \<^verbatim>\<open>caretRange\<close>, and the counter \<^verbatim>\<open>i\<close>);
  \<^item> \<open>ApplyShake\<close>: the \<^verbatim>\<open>applyShake\<close> of \<^verbatim>\<open>shake\<close> (editor).\<close>

datatype Callback =
    Tick view EffectKind
  | Expire view EffectKind nat
  | Step view EffectKind nat nat num position nat
  | ApplyShake view

record Config =
  comboMaxTrail :: int
  comboTtlBlipMs :: int
  comboTtlBoomMs :: int
  comboTtlNewlineMs :: int
  comboAnimFrameMs :: int
  shakeDecayMs :: int

text \<open>What the three regular expressions of \<^verbatim>\<open>ensureSpriteData\<close> find in the scene text:
  the AtlasTexture blocks in text order (captured id, the numbers of the captured
  \<^verbatim>\<open>Rect2(...)\<close> argument after \<^verbatim>\<open>split(',')\<close> and \<^verbatim>\<open>parseFloat\<close>), the SubResource references
  inside the captured animations block (\<open>None\<close> when the SpriteFrames pattern does not
  match), and the parsed \<^verbatim>\<open>"speed"\<close> value (\<open>None\<close> when that pattern does not match).\<close>

record Scene =
  atlasBlocks :: "(string \<times> num list) list"
  animBlock :: "string list option"
  speedMatch :: "num option"

record Asset =
  tscn :: Scene
  png :: string

record World =
  editorStates :: "view \<Rightarrow> EditorState"
  spriteData :: "EffectKind \<Rightarrow> SpriteData option"
  runningSpriteAnim :: "view \<Rightarrow> (nat \<times> (EffectKind \<Rightarrow> timer option)) option"
  shakeDecoCache :: "(int \<times> int) list"
  timers :: "(timer \<times> num \<times> Callback) list"
  nextTimer :: nat
  nextObject :: nat
  microtasks :: "(view \<times> EffectKind) list"
  fileReads :: "EffectKind list"
  disposed :: "view \<Rightarrow> bool"
  caret :: "view \<Rightarrow> position"
  visibleRanges :: "view \<Rightarrow> (nat \<times> nat) list"
  lineCount :: "view \<Rightarrow> nat"
  lineEnd :: "view \<Rightarrow> nat \<Rightarrow> nat"
  strictHost :: bool
  shown :: "view \<Rightarrow> DecorationType \<Rightarrow> Item list"
  calls :: "(view \<times> DecorationType) list"

datatype Outcome = Returned World | Threw World

fun worldOf :: "Outcome \<Rightarrow> World" where
  "worldOf (Returned w) = w"
| "worldOf (Threw w) = w"

fun andThen :: "Outcome \<Rightarrow> (World \<Rightarrow> Outcome) \<Rightarrow> Outcome" where
  "andThen (Returned w) f = f w"
| "andThen (Threw w) f = Threw w"

text \<open>\<^verbatim>\<open>try { ... } catch { }\<close>: the exception is swallowed, the mutations stay.\<close>

fun tryCatch :: "Outcome \<Rightarrow> Outcome" where
  "tryCatch (Returned w) = Returned w"
| "tryCatch (Threw w) = Returned w"

subsection \<open>State store, configuration, host and timers\<close>

definition MAX_DECORATIONS_PER_TYPE :: int where
  "MAX_DECORATIONS_PER_TYPE = 5"

definition initialState :: EditorState where
  "initialState = \<lparr> lastBlipAt = 0, lastBoomAt = 0,
     activeDecorations = (\<lambda>k. 0), buffers = (\<lambda>k. []), animTimers = (\<lambda>k. None),
     shakeTimer = None, activeShakeDecoKey = None, shakeEndAt = None \<rparr>"

definition getEditorState :: "World \<Rightarrow> view \<Rightarrow> EditorState" where
  "getEditorState w v = editorStates w v"

definition setState :: "view \<Rightarrow> (EditorState \<Rightarrow> EditorState) \<Rightarrow> World \<Rightarrow> World" where
  "setState v f w = w\<lparr> editorStates := (editorStates w)(v := f (editorStates w v)) \<rparr>"

definition defaultConfig :: Config where
  "defaultConfig = \<lparr> comboMaxTrail = 5, comboTtlBlipMs = 400, comboTtlBoomMs = 650,
     comboTtlNewlineMs = 350, comboAnimFrameMs = 50, shakeDecayMs = 120 \<rparr>"

definition maxTrail :: "Config \<Rightarrow> int" where
  "maxTrail cfg = max 0 (comboMaxTrail cfg)"

definition frameMsOf :: "Config \<Rightarrow> int" where
  "frameMsOf cfg = max 10 (comboAnimFrameMs cfg)"

definition getTtl :: "Config \<Rightarrow> EffectKind \<Rightarrow> int" where
  "getTtl cfg kind =
     (if kind = Boom then max 0 (comboTtlBoomMs cfg)
      else if kind = Blip then max 0 (comboTtlBlipMs cfg)
      else max 0 (comboTtlNewlineMs cfg))"

definition decorationOf :: "EffectKind \<Rightarrow> DecorationType" where
  "decorationOf kind =
     (if kind = Blip then BlipDecoration
      else if kind = Boom then BoomDecoration else NewlineDecoration)"

text \<open>\<^verbatim>\<open>editor.setDecorations\<close> replaces what the decoration type shows in the editor;
  \<open>calls\<close> lists the calls the host carried out. The host is not part of the source. The
  code wraps some of its calls in \<^verbatim>\<open>try/catch\<close> "editor might have been disposed", and
  what the call does on an editor that has been closed is a parameter of the model: with
  \<open>strictHost\<close> it throws, without it the call is ignored and returns. No method
  changes \<open>strictHost\<close>.\<close>

definition setDecorations :: "view \<Rightarrow> DecorationType \<Rightarrow> Item list \<Rightarrow> World \<Rightarrow> Outcome" where
  "setDecorations v d items w =
     (if disposed w v then (if strictHost w then Threw w else Returned w)
      else Returned (w\<lparr> shown := (shown w)(v := (shown w v)(d := items)),
                        calls := calls w @ [(v, d)] \<rparr>))"

definition setTimeout :: "Callback \<Rightarrow> num \<Rightarrow> World \<Rightarrow> World" where
  "setTimeout cb delay w =
     w\<lparr> timers := timers w @ [(nextTimer w, delay, cb)], nextTimer := Suc (nextTimer w) \<rparr>"

definition clearTimeout :: "timer \<Rightarrow> World \<Rightarrow> World" where
  "clearTimeout t w = w\<lparr> timers := filter (\<lambda>e. fst e \<noteq> t) (timers w) \<rparr>"

definition caretRange :: "World \<Rightarrow> view \<Rightarrow> position" where
  "caretRange w v = caret w v"

subsection \<open>Admission control, combo buffer and animator\<close>

definition canAddDecoration :: "World \<Rightarrow> view \<Rightarrow> EffectKind \<Rightarrow> bool" where
  "canAddDecoration w v kind =
     (activeDecorations (getEditorState w v) kind < MAX_DECORATIONS_PER_TYPE)"

definition rendered :: "BufItem list \<Rightarrow> Item list" where
  "rendered buf = map (\<lambda>b. OptItem (opt b)) buf"

text \<open>\<^verbatim>\<open>ensureAnimating\<close>: returns at once when a timer handle is stored for the kind.\<close>

definition ensureAnimating :: "Config \<Rightarrow> view \<Rightarrow> EffectKind \<Rightarrow> World \<Rightarrow> World" where
  "ensureAnimating cfg v kind w =
     (if animTimers (getEditorState w v) kind \<noteq> None then w
      else
        let t = nextTimer w;
            w1 = setTimeout (Tick v kind) (Num (of_int (frameMsOf cfg))) w
        in setState v (\<lambda>st. st\<lparr> animTimers := (animTimers st)(kind := Some t) \<rparr>) w1)"

text \<open>The body of \<^verbatim>\<open>tick\<close>. The loop over the buffer mutates each \<^verbatim>\<open>opt\<close> in place
  (identity kept); the transform is a function of \<open>age\<close> and \<open>ttl\<close>, which is what the
  model stores.\<close>

definition age :: "int \<Rightarrow> int \<Rightarrow> BufItem \<Rightarrow> BufItem" where
  "age now ttl item = item\<lparr> opt := (opt item)\<lparr> transform := Some (now - createdAt item, ttl) \<rparr> \<rparr>"

definition tick :: "Config \<Rightarrow> int \<Rightarrow> view \<Rightarrow> EffectKind \<Rightarrow> World \<Rightarrow> Outcome" where
  "tick cfg now v kind w =
     (let st = getEditorState w v; buf = buffers st kind in
      if buf = [] then
        let w1 = (case animTimers st kind of Some t \<Rightarrow> clearTimeout t w | None \<Rightarrow> w)
        in Returned (setState v (\<lambda>st. st\<lparr> animTimers := (animTimers st)(kind := None) \<rparr>) w1)
      else
        let ttl = getTtl cfg kind;
            buf1 = map (age now ttl) buf;
            w1 = setState v (\<lambda>st. st\<lparr> buffers := (buffers st)(kind := buf1) \<rparr>) w
        in andThen (setDecorations v (decorationOf kind) (rendered buf1) w1)
             (\<lambda>w2. let t = nextTimer w2;
                        w3 = setTimeout (Tick v kind) (Num (of_int (frameMsOf cfg))) w2
                    in Returned (setState v (\<lambda>st. st\<lparr> animTimers := (animTimers st)(kind := Some t) \<rparr>) w3)))"

text \<open>\<^verbatim>\<open>arr.findIndex(x => x.opt === opt)\<close> and \<^verbatim>\<open>arr.splice(idx, 1)\<close>.\<close>

fun findIndex :: "nat \<Rightarrow> BufItem list \<Rightarrow> nat option" where
  "findIndex i [] = None"
| "findIndex i (b # bs) =
     (if ident (opt b) = i then Some 0
      else case findIndex i bs of None \<Rightarrow> None | Some n \<Rightarrow> Some (Suc n))"

definition splice1 :: "nat \<Rightarrow> 'a list \<Rightarrow> 'a list" where
  "splice1 idx xs = take idx xs @ drop (Suc idx) xs"

text \<open>The callback \<^verbatim>\<open>applyOnce\<close> schedules after \<open>ttl\<close> milliseconds; its body is one
  \<^verbatim>\<open>try/catch\<close>.\<close>

definition expire :: "view \<Rightarrow> EffectKind \<Rightarrow> nat \<Rightarrow> World \<Rightarrow> Outcome" where
  "expire v kind i w =
     tryCatch
       (let arr = buffers (getEditorState w v) kind in
        andThen
          (case findIndex i arr of
             None \<Rightarrow> Returned w
           | Some idx \<Rightarrow>
               let arr1 = splice1 idx arr;
                   w1 = setState v (\<lambda>st. st\<lparr> buffers := (buffers st)(kind := arr1) \<rparr>) w
               in setDecorations v (decorationOf kind) (rendered arr1) w1)
          (\<lambda>w2. Returned (setState v (\<lambda>st. st\<lparr> activeDecorations :=
                   (activeDecorations st)(kind := max 0 (activeDecorations st kind - 1)) \<rparr>) w2)))"

text \<open>\<^verbatim>\<open>applyOnce\<close>. A label is used when it is truthy: given and not the empty string.\<close>

definition contentOf :: "string option \<Rightarrow> Content" where
  "contentOf label = (case label of None \<Rightarrow> Marker | Some l \<Rightarrow> if l = [] then Marker else TextLabel l)"

definition bufferCap :: "Config \<Rightarrow> int" where
  "bufferCap cfg = max (maxTrail cfg) MAX_DECORATIONS_PER_TYPE"

definition applyOnce :: "Config \<Rightarrow> int \<Rightarrow> view \<Rightarrow> EffectKind \<Rightarrow> string option \<Rightarrow> World \<Rightarrow> Outcome" where
  "applyOnce cfg now v kind label w =
     (if \<not> canAddDecoration w v kind then Returned w
      else
        let newOpt = \<lparr> ident = nextObject w, range = caretRange w v,
                       content = contentOf label, transform = None \<rparr>;
            w1 = w\<lparr> nextObject := Suc (nextObject w) \<rparr>;
            pushed = buffers (getEditorState w1 v) kind @ [\<lparr> opt = newOpt, createdAt = now \<rparr>];
            cap = bufferCap cfg;
            buffer = (if int (length pushed) > cap then tl pushed else pushed);
            w2 = setState v (\<lambda>st. st\<lparr> buffers := (buffers st)(kind := buffer) \<rparr>) w1
        in andThen (setDecorations v (decorationOf kind) (rendered buffer) w2)
             (\<lambda>w3. let w4 = ensureAnimating cfg v kind w3;
                        w5 = setState v (\<lambda>st. st\<lparr> activeDecorations :=
                               (activeDecorations st)(kind := activeDecorations st kind + 1) \<rparr>) w4
                    in Returned (setTimeout (Expire v kind (ident newOpt))
                                   (Num (of_int (getTtl cfg kind))) w5)))"

subsection \<open>Shake controller\<close>

definition linesOf :: "World \<Rightarrow> view \<Rightarrow> nat \<Rightarrow> nat \<Rightarrow> Item list" where
  "linesOf w v lo hi = map (\<lambda>l. LineItem l (lineEnd w v l)) [lo ..< hi]"

text \<open>\<^verbatim>\<open>visibleLineRanges\<close>: every line of every visible range, clamped to the document;
  the whole document when that gives nothing.\<close>

definition visibleLineRanges :: "World \<Rightarrow> view \<Rightarrow> Item list" where
  "visibleLineRanges w v =
     (let ranges = concat (map (\<lambda>r. linesOf w v (fst r) (min (lineCount w v) (Suc (snd r))))
                            (visibleRanges w v))
      in if ranges = [] \<and> lineCount w v > 0 then linesOf w v 0 (lineCount w v) else ranges)"

text \<open>\<^verbatim>\<open>getDeco\<close>: the decoration type of a displacement is created and cached on first use.\<close>

definition getDeco :: "int \<times> int \<Rightarrow> World \<Rightarrow> World" where
  "getDeco key w =
     (if key \<in> set (shakeDecoCache w) then w
      else w\<lparr> shakeDecoCache := shakeDecoCache w @ [key] \<rparr>)"

definition clearShakeDeco :: "view \<Rightarrow> int \<times> int \<Rightarrow> World \<Rightarrow> Outcome" where
  "clearShakeDeco v key w =
     (if key \<in> set (shakeDecoCache w)
      then setDecorations v (ShakeDecoration (fst key) (snd key)) [] w
      else Returned w)"

text \<open>\<^verbatim>\<open>applyShake\<close>; \<open>rnd\<close> is the rounded displacement \<open>(dx, dy)\<close> drawn for this frame.
  \<^verbatim>\<open>!state.shakeEndAt\<close> holds for an absent deadline and for the number 0.\<close>

definition applyShake :: "int \<Rightarrow> int \<times> int \<Rightarrow> view \<Rightarrow> World \<Rightarrow> Outcome" where
  "applyShake now rnd v w =
     (let st = getEditorState w v in
      if (case shakeEndAt st of None \<Rightarrow> True | Some e \<Rightarrow> e = 0 \<or> now > e) then
        andThen
          (case activeShakeDecoKey st of
             None \<Rightarrow> Returned w
           | Some prev \<Rightarrow>
               andThen (clearShakeDeco v prev w)
                 (\<lambda>w1. Returned (setState v (\<lambda>st. st\<lparr> activeShakeDecoKey := None \<rparr>) w1)))
          (\<lambda>w2. Returned (setState v (\<lambda>st. st\<lparr> shakeTimer := None \<rparr>) w2))
      else
        let w1 = getDeco rnd w in
        andThen
          (case activeShakeDecoKey st of
             None \<Rightarrow> Returned w1
           | Some prev \<Rightarrow> if prev \<noteq> rnd then clearShakeDeco v prev w1 else Returned w1)
          (\<lambda>w2. andThen
             (setDecorations v (ShakeDecoration (fst rnd) (snd rnd)) (visibleLineRanges w2 v) w2)
             (\<lambda>w3. let w4 = setState v (\<lambda>st. st\<lparr> activeShakeDecoKey := Some rnd \<rparr>) w3;
                        t = nextTimer w4;
                        w5 = setTimeout (ApplyShake v) (Num 16) w4
                    in Returned (setState v (\<lambda>st. st\<lparr> shakeTimer := Some t \<rparr>) w5))))"

definition decayMsOf :: "Config \<Rightarrow> int" where
  "decayMsOf cfg = max 20 (shakeDecayMs cfg)"

definition shake :: "Config \<Rightarrow> int \<Rightarrow> int \<times> int \<Rightarrow> view \<Rightarrow> int \<Rightarrow> World \<Rightarrow> Outcome" where
  "shake cfg now rnd v extendMs w =
     (let decayMs = decayMsOf cfg;
          maxExtend = max extendMs decayMs;
          w1 = setState v (\<lambda>st. st\<lparr> shakeEndAt :=
                 Some (max (case shakeEndAt st of None \<Rightarrow> 0 | Some e \<Rightarrow> e) (now + maxExtend)) \<rparr>) w
      in if shakeTimer (getEditorState w1 v) = None then applyShake now rnd v w1
         else Returned w1)"

subsection \<open>Sprite decoder\<close>

text \<open>Rounding of an exact result to the nearest double, ties to the even significand.
  \<open>binade n a\<close> is the exponent \<open>e\<close> with \<open>2 ^ e \<le> a < 2 ^ (e + 1)\<close>, found in at most
  \<open>n\<close> steps; 1100 steps reach every exponent a double can have, and beyond them the
  result is an infinity or zero whatever the exponent. A double has 53 significant bits,
  fewer below \<open>2 ^ (- 1022)\<close>; a result of \<open>2 ^ 1024\<close> or more is an infinity.\<close>

fun binade :: "nat \<Rightarrow> rat \<Rightarrow> int" where
  "binade 0 a = 0"
| "binade (Suc n) a =
     (if 2 \<le> a then binade n (a / 2) + 1 else if a < 1 then binade n (a * 2) - 1 else 0)"

definition pow2 :: "int \<Rightarrow> rat" where
  "pow2 e = (if 0 \<le> e then 2 ^ nat e else 1 / 2 ^ nat (- e))"

definition roundEven :: "rat \<Rightarrow> int" where
  "roundEven q =
     (let n = \<lfloor>q\<rfloor>; r = q - of_int n
      in if r < 1 / 2 then n else if 1 / 2 < r then n + 1 else if even n then n else n + 1)"

definition roundDouble :: "rat \<Rightarrow> num" where
  "roundDouble x =
     (if x = 0 then Num 0
      else
        let e = max (binade 1100 \<bar>x\<bar>) (- 1022);
            u = pow2 (e - 52);
            y = of_int (roundEven (\<bar>x\<bar> / u)) * u
        in if pow2 1024 \<le> y then Infinity (0 < x) else Num (if 0 < x then y else - y))"

text \<open>\<^verbatim>\<open>Math.max\<close> of two numbers, the sum and the quotient of two doubles, and
  \<^verbatim>\<open>Math.round\<close>, which rounds to the nearest integer, a half upwards, and is exact.\<close>

fun jmax :: "num \<Rightarrow> num \<Rightarrow> num" where
  "jmax NaN b = NaN"
| "jmax (Num a) NaN = NaN"
| "jmax (Infinity s) NaN = NaN"
| "jmax (Infinity s) (Infinity t) = Infinity (s \<or> t)"
| "jmax (Infinity s) (Num b) = (if s then Infinity True else Num b)"
| "jmax (Num a) (Infinity t) = (if t then Infinity True else Num a)"
| "jmax (Num a) (Num b) = Num (max a b)"

fun jadd :: "num \<Rightarrow> num \<Rightarrow> num" where
  "jadd NaN b = NaN"
| "jadd (Num a) NaN = NaN"
| "jadd (Infinity s) NaN = NaN"
| "jadd (Infinity s) (Infinity t) = (if s = t then Infinity s else NaN)"
| "jadd (Infinity s) (Num b) = Infinity s"
| "jadd (Num a) (Infinity t) = Infinity t"
| "jadd (Num a) (Num b) = roundDouble (a + b)"

fun jdiv :: "num \<Rightarrow> num \<Rightarrow> num" where
  "jdiv NaN b = NaN"
| "jdiv (Num a) NaN = NaN"
| "jdiv (Infinity s) NaN = NaN"
| "jdiv (Infinity s) (Infinity t) = NaN"
| "jdiv (Infinity s) (Num b) = Infinity (s = (0 \<le> b))"
| "jdiv (Num a) (Infinity t) = Num 0"
| "jdiv (Num a) (Num b) =
     (if b = 0 then (if a = 0 then NaN else Infinity (0 < a)) else roundDouble (a / b))"

fun jround :: "num \<Rightarrow> num" where
  "jround (Num q) = Num (of_int \<lfloor>q + 1 / 2\<rfloor>)"
| "jround x = x"

text \<open>\<^verbatim>\<open>atlasMap.set(id, rect)\<close> on a JavaScript Map: a new key goes to the end, a known
  key keeps its place and takes the new value.\<close>

fun mapSet :: "string \<Rightarrow> Rect \<Rightarrow> (string \<times> Rect) list \<Rightarrow> (string \<times> Rect) list" where
  "mapSet k r [] = [(k, r)]"
| "mapSet k r (p # ps) = (if fst p = k then (k, r) # ps else p # mapSet k r ps)"

fun buildAtlasMap :: "(string \<times> num list) list \<Rightarrow> (string \<times> Rect) list \<Rightarrow> (string \<times> Rect) list" where
  "buildAtlasMap [] m = m"
| "buildAtlasMap ((i, nums) # bs) m =
     buildAtlasMap bs
       (if length nums \<ge> 4
        then mapSet i \<lparr> rx = nums ! 0, ry = nums ! 1, rw = nums ! 2, rh = nums ! 3 \<rparr> m
        else m)"

fun resolveFrames :: "(string \<times> Rect) list \<Rightarrow> string list \<Rightarrow> Rect list" where
  "resolveFrames m [] = []"
| "resolveFrames m (i # is) =
     (case map_of m i of None \<Rightarrow> resolveFrames m is | Some rect \<Rightarrow> rect # resolveFrames m is)"

fun sheetExtent :: "(Rect \<Rightarrow> num) \<Rightarrow> (Rect \<Rightarrow> num) \<Rightarrow> Rect list \<Rightarrow> num \<Rightarrow> num" where
  "sheetExtent p q [] acc = acc"
| "sheetExtent p q (f # fs) acc = sheetExtent p q fs (jmax acc (jadd (p f) (q f)))"

definition decodeSprite :: "Asset \<Rightarrow> SpriteData" where
  "decodeSprite a =
     (let atlasMap = buildAtlasMap (atlasBlocks (tscn a)) [];
          framesOrder = (case animBlock (tscn a) of None \<Rightarrow> [] | Some refs \<Rightarrow> refs);
          fpsV = (case speedMatch (tscn a) of None \<Rightarrow> Num 24 | Some s \<Rightarrow> jmax (Num 1) s);
          resolved = resolveFrames atlasMap framesOrder;
          fr = (if resolved = [] \<and> atlasMap \<noteq> [] then map snd atlasMap else resolved);
          sw = sheetExtent rx rw fr (Num 0);
          sh = sheetExtent ry rh fr (Num 0)
      in \<lparr> frames = fr, sheetW = sw, sheetH = sh, fps = fpsV, pngBase64 = png a,
           frameUris = map (\<lambda>f. (f, sw, sh)) fr \<rparr>)"

text \<open>\<^verbatim>\<open>ensureSpriteData\<close>: nothing is read when the kind is cached; a missing file makes
  \<^verbatim>\<open>readFileSync\<close> throw. \<open>files\<close> is the asset directory.\<close>

definition ensureSpriteData :: "(EffectKind \<Rightarrow> Asset option) \<Rightarrow> EffectKind \<Rightarrow> World \<Rightarrow> Outcome" where
  "ensureSpriteData files kind w =
     (if spriteData w kind \<noteq> None then Returned w
      else
        let w1 = w\<lparr> fileReads := fileReads w @ [kind] \<rparr> in
        case files kind of
          None \<Rightarrow> Threw w1
        | Some a \<Rightarrow> Returned (w1\<lparr> spriteData := (spriteData w1)(kind := Some (decodeSprite a)) \<rparr>))"

subsection \<open>Sprite player\<close>

fun stopKinds :: "EffectKind list \<Rightarrow> (EffectKind \<Rightarrow> timer option) \<Rightarrow> World
    \<Rightarrow> (EffectKind \<Rightarrow> timer option) \<times> World" where
  "stopKinds [] m w = (m, w)"
| "stopKinds (k # ks) m w =
     (case m k of
        None \<Rightarrow> stopKinds ks m w
      | Some t \<Rightarrow> stopKinds ks (m(k := None)) (clearTimeout t w))"

definition clearSpriteAnim :: "view \<Rightarrow> EffectKind option \<Rightarrow> World \<Rightarrow> Outcome" where
  "clearSpriteAnim v kind w =
     (case runningSpriteAnim w v of
        None \<Rightarrow> Returned w
      | Some tab \<Rightarrow>
          let kinds = (case kind of Some k \<Rightarrow> [k] | None \<Rightarrow> [Blip, Boom, Newline]);
              r = stopKinds kinds (snd tab) w;
              w1 = (snd r)\<lparr> runningSpriteAnim := (runningSpriteAnim (snd r))(v := Some (fst tab, fst r)) \<rparr>;
              w2 = (if kind = None then w1\<lparr> runningSpriteAnim := (runningSpriteAnim w1)(v := None) \<rparr>
                    else w1)
          in if kind \<noteq> None then setDecorations v AnimDecoration [] w2 else Returned w2)"

text \<open>A write to the run table a \<^verbatim>\<open>step\<close> closure captured. The table is an object: when
  it is no longer the one registered for the editor, the write is to an object nothing
  else can reach.\<close>

definition setRun :: "view \<Rightarrow> nat \<Rightarrow> EffectKind \<Rightarrow> timer option \<Rightarrow> World \<Rightarrow> World" where
  "setRun v tabId kind t w =
     (case runningSpriteAnim w v of
        None \<Rightarrow> w
      | Some tab \<Rightarrow>
          if fst tab = tabId
          then w\<lparr> runningSpriteAnim := (runningSpriteAnim w)(v := Some (tabId, (snd tab)(kind := t))) \<rparr>
          else w)"

definition step :: "view \<Rightarrow> EffectKind \<Rightarrow> nat \<Rightarrow> nat \<Rightarrow> num \<Rightarrow> position \<Rightarrow> nat \<Rightarrow> World \<Rightarrow> Outcome" where
  "step v kind tabId totalFrames frameMs cr i w =
     (if i \<ge> totalFrames then
        andThen (setDecorations v AnimDecoration [] w)
          (\<lambda>w1. Returned (setRun v tabId kind None w1))
      else
        andThen (setDecorations v AnimDecoration [FrameItem kind i cr] w)
          (\<lambda>w1. let t = nextTimer w1;
                     w2 = setTimeout (Step v kind tabId totalFrames frameMs cr (Suc i)) frameMs w1
                 in Returned (setRun v tabId kind (Some t) w2)))"

text \<open>\<^verbatim>\<open>Math.max(10, Math.round(1000 / data.fps))\<close>.\<close>

definition frameMsOfFps :: "num \<Rightarrow> num" where
  "frameMsOfFps f = jmax (Num 10) (jround (jdiv (Num 1000) f))"

text \<open>\<^verbatim>\<open>playSpriteAnim\<close> is an async function. The call runs \<^verbatim>\<open>ensureSpriteData\<close> and
  suspends at the \<^verbatim>\<open>await\<close>: the rest of its body (\<open>playSpriteAnimResume\<close>) is a promise
  continuation that runs after the calling code has returned. A failed decode rejects
  the promise, and nothing of the body runs.\<close>

definition playSpriteAnim :: "(EffectKind \<Rightarrow> Asset option) \<Rightarrow> view \<Rightarrow> EffectKind \<Rightarrow> World \<Rightarrow> World" where
  "playSpriteAnim files v kind w =
     (case ensureSpriteData files kind w of
        Threw w1 \<Rightarrow> w1
      | Returned w1 \<Rightarrow> w1\<lparr> microtasks := microtasks w1 @ [(v, kind)] \<rparr>)"

definition playSpriteAnimResume :: "view \<Rightarrow> EffectKind \<Rightarrow> World \<Rightarrow> Outcome" where
  "playSpriteAnimResume v kind w =
     (case spriteData w kind of
        None \<Rightarrow> Returned w
      | Some data \<Rightarrow>
          if frames data = [] then Returned w
          else
            let w1 = (case runningSpriteAnim w v of
                        Some tab \<Rightarrow> w
                      | None \<Rightarrow> w\<lparr> runningSpriteAnim :=
                                     (runningSpriteAnim w)(v := Some (nextObject w, \<lambda>k. None)),
                                   nextObject := Suc (nextObject w) \<rparr>);
                tab = the (runningSpriteAnim w1 v);
                w2 = (case snd tab kind of
                        None \<Rightarrow> w1
                      | Some t \<Rightarrow> setRun v (fst tab) kind None (clearTimeout t w1))
            in step v kind (fst tab) (length (frameUris data)) (frameMsOfFps (fps data))
                 (caretRange w2 v) 0 w2)"

subsection \<open>Entry points\<close>

definition labelArg :: "bool \<Rightarrow> string option \<Rightarrow> string option" where
  "labelArg showChars charLabel = (if showChars then charLabel else None)"

definition showBlip :: "Config \<Rightarrow> (EffectKind \<Rightarrow> Asset option) \<Rightarrow> int \<Rightarrow> int \<times> int
    \<Rightarrow> view \<Rightarrow> bool \<Rightarrow> bool \<Rightarrow> string option \<Rightarrow> World \<Rightarrow> Outcome" where
  "showBlip cfg files now rnd v showChars shakeFlag charLabel w =
     andThen
       (if now - lastBlipAt (getEditorState w v) \<ge> 20 then
          let w1 = setState v (\<lambda>st. st\<lparr> lastBlipAt := now \<rparr>) w in
          andThen (clearSpriteAnim v None w1)
            (\<lambda>w2. andThen (applyOnce cfg now v Blip (labelArg showChars charLabel) w2)
               (\<lambda>w3. Returned (playSpriteAnim files v Blip w3)))
        else Returned w)
       (\<lambda>w4. if shakeFlag then shake cfg now rnd v 120 w4 else Returned w4)"

definition showBoom :: "Config \<Rightarrow> (EffectKind \<Rightarrow> Asset option) \<Rightarrow> int \<Rightarrow> int \<times> int
    \<Rightarrow> view \<Rightarrow> bool \<Rightarrow> bool \<Rightarrow> string option \<Rightarrow> World \<Rightarrow> Outcome" where
  "showBoom cfg files now rnd v showChars shakeFlag charLabel w =
     andThen
       (if now - lastBoomAt (getEditorState w v) \<ge> 100 then
          let w1 = setState v (\<lambda>st. st\<lparr> lastBoomAt := now \<rparr>) w in
          andThen (clearSpriteAnim v None w1)
            (\<lambda>w2. andThen (applyOnce cfg now v Boom (labelArg showChars charLabel) w2)
               (\<lambda>w3. Returned (playSpriteAnim files v Boom w3)))
        else Returned w)
       (\<lambda>w4. if shakeFlag then shake cfg now rnd v 180 w4 else Returned w4)"

definition showNewline :: "Config \<Rightarrow> (EffectKind \<Rightarrow> Asset option) \<Rightarrow> int \<Rightarrow> int \<times> int
    \<Rightarrow> view \<Rightarrow> bool \<Rightarrow> World \<Rightarrow> Outcome" where
  "showNewline cfg files now rnd v shakeFlag w =
     andThen (clearSpriteAnim v None w)
       (\<lambda>w1. andThen (applyOnce cfg now v Newline None w1)
          (\<lambda>w2. let w3 = playSpriteAnim files v Newline w2
                 in if shakeFlag then shake cfg now rnd v 140 w3 else Returned w3))"

fun stopAnimTimers :: "view \<Rightarrow> EffectKind list \<Rightarrow> World \<Rightarrow> World" where
  "stopAnimTimers v [] w = w"
| "stopAnimTimers v (k # ks) w =
     (let w1 = (case animTimers (getEditorState w v) k of None \<Rightarrow> w | Some t \<Rightarrow> clearTimeout t w)
      in stopAnimTimers v ks (setState v (\<lambda>st. st\<lparr> animTimers := (animTimers st)(k := None) \<rparr>) w1))"

definition clearAllDecorations :: "view \<Rightarrow> World \<Rightarrow> Outcome" where
  "clearAllDecorations v w =
     tryCatch
       (andThen (setDecorations v BlipDecoration [] w)
       (\<lambda>w1. andThen (setDecorations v BoomDecoration [] w1)
       (\<lambda>w2. andThen (setDecorations v NewlineDecoration [] w2)
       (\<lambda>w3. andThen (setDecorations v JitterLeft [] w3)
       (\<lambda>w4. andThen (setDecorations v JitterRight [] w4)
       (\<lambda>w5. let w6 = setState v (\<lambda>st. st\<lparr> activeDecorations := (\<lambda>k. 0),
                                                buffers := (\<lambda>k. []) \<rparr>) w5
              in Returned (stopAnimTimers v [Blip, Boom, Newline] w6)))))))"

subsection \<open>The event loop\<close>

text \<open>One event is one run-to-completion job of the JavaScript event loop: a call of an
  entry point by the extension, a timer that fires, a pending promise continuation, or
  the host closing an editor or moving its caret. It carries the clock value and the
  displacement a shake frame would draw. An exception that reaches the event loop ends
  the job; what the job had changed stays. Timers may fire in any order.\<close>

datatype Action =
    ShowBlip view bool bool "string option"
  | ShowBoom view bool bool "string option"
  | ShowNewline view bool
  | ClearAllDecorations view
  | Fire timer
  | Resume
  | Dispose view
  | MoveCaret view position

datatype Event = Event int "int \<times> int" Action

record Env =
  config :: Config
  files :: "EffectKind \<Rightarrow> Asset option"

fun runCallback :: "Env \<Rightarrow> int \<Rightarrow> int \<times> int \<Rightarrow> Callback \<Rightarrow> World \<Rightarrow> Outcome" where
  "runCallback env now rnd (Tick v kind) w = tick (config env) now v kind w"
| "runCallback env now rnd (Expire v kind i) w = expire v kind i w"
| "runCallback env now rnd (Step v kind tabId totalFrames frameMs cr i) w =
     step v kind tabId totalFrames frameMs cr i w"
| "runCallback env now rnd (ApplyShake v) w = applyShake now rnd v w"

definition pendingTimer :: "World \<Rightarrow> timer \<Rightarrow> Callback option" where
  "pendingTimer w t = map_option snd (map_of (timers w) t)"

fun perform :: "Env \<Rightarrow> int \<Rightarrow> int \<times> int \<Rightarrow> Action \<Rightarrow> World \<Rightarrow> Outcome" where
  "perform env now rnd (ShowBlip v showChars shakeFlag charLabel) w =
     showBlip (config env) (files env) now rnd v showChars shakeFlag charLabel w"
| "perform env now rnd (ShowBoom v showChars shakeFlag charLabel) w =
     showBoom (config env) (files env) now rnd v showChars shakeFlag charLabel w"
| "perform env now rnd (ShowNewline v shakeFlag) w =
     showNewline (config env) (files env) now rnd v shakeFlag w"
| "perform env now rnd (ClearAllDecorations v) w = clearAllDecorations v w"
| "perform env now rnd (Fire t) w =
     (case pendingTimer w t of
        None \<Rightarrow> Returned w
      | Some cb \<Rightarrow> runCallback env now rnd cb (clearTimeout t w))"
| "perform env now rnd Resume w =
     (case microtasks w of
        [] \<Rightarrow> Returned w
      | (v, kind) # rest \<Rightarrow> playSpriteAnimResume v kind (w\<lparr> microtasks := rest \<rparr>))"
| "perform env now rnd (Dispose v) w = Returned (w\<lparr> disposed := (disposed w)(v := True) \<rparr>)"
| "perform env now rnd (MoveCaret v p) w = Returned (w\<lparr> caret := (caret w)(v := p) \<rparr>)"

fun handle :: "Env \<Rightarrow> Event \<Rightarrow> World \<Rightarrow> World" where
  "handle env (Event now rnd a) w = worldOf (perform env now rnd a w)"

text \<open>The configuration and the asset files are read anew by every call
  (\<^verbatim>\<open>getComboConfig\<close>, \<^verbatim>\<open>readFileSync\<close>), so every event of a run comes with the
  environment in force when it is handled. \<open>withEnv env es\<close> is a run whose environment
  does not change.\<close>

fun run :: "(Env \<times> Event) list \<Rightarrow> World \<Rightarrow> World" where
  "run [] w = w"
| "run ((env, e) # es) w = run es (handle env e w)"

definition withEnv :: "Env \<Rightarrow> Event list \<Rightarrow> (Env \<times> Event) list" where
  "withEnv env es = map (Pair env) es"

text \<open>A freshly constructed manager: no editor state, no decoded sprite, no timer. The
  argument says whether the host throws on a closed editor.\<close>

definition initialWorld :: "bool \<Rightarrow> World" where
  "initialWorld strict = \<lparr> editorStates = (\<lambda>v. initialState), spriteData = (\<lambda>k. None),
     runningSpriteAnim = (\<lambda>v. None), shakeDecoCache = [], timers = [], nextTimer = 0,
     nextObject = 0, microtasks = [], fileReads = [], disposed = (\<lambda>v. False),
     caret = (\<lambda>v. (0, 0)), visibleRanges = (\<lambda>v. []), lineCount = (\<lambda>v. 1),
     lineEnd = (\<lambda>v l. 0), strictHost = strict, shown = (\<lambda>v d. []), calls = [] \<rparr>"

subsection \<open>Predicates used to state the properties\<close>




text \<open>Timer handles are unique; a pending \<open>Tick\<close> is the one its editor state refers
  to; a pending \<open>Step\<close> is the one the editor's current run table refers to.\<close>

definition freshInv :: "World \<Rightarrow> bool" where
  "freshInv w \<longleftrightarrow> distinct (map fst (timers w)) \<and> (\<forall>e \<in> set (timers w). fst e < nextTimer w)"

definition tickInv :: "World \<Rightarrow> bool" where
  "tickInv w \<longleftrightarrow>
     (\<forall>e \<in> set (timers w). \<forall>v k. snd (snd e) = Tick v k \<longrightarrow>
        animTimers (editorStates w v) k = Some (fst e))"

fun stepOf :: "Callback \<Rightarrow> (view \<times> EffectKind \<times> nat) option" where
  "stepOf (Step v kind tabId totalFrames frameMs cr i) = Some (v, kind, tabId)"
| "stepOf _ = None"


text \<open>Frame conditions: what a method leaves alone.\<close>

definition comboSame :: "World \<Rightarrow> World \<Rightarrow> bool" where
  "comboSame w w' \<longleftrightarrow>
     (\<forall>v. buffers (editorStates w' v) = buffers (editorStates w v)
        \<and> activeDecorations (editorStates w' v) = activeDecorations (editorStates w v))
     \<and> nextObject w \<le> nextObject w'"

definition tickSame :: "World \<Rightarrow> World \<Rightarrow> bool" where
  "tickSame w w' \<longleftrightarrow>
     (\<forall>v. animTimers (editorStates w' v) = animTimers (editorStates w v))
     \<and> (\<forall>e \<in> set (timers w'). e \<in> set (timers w) \<or> (\<forall>v k. snd (snd e) \<noteq> Tick v k))"

definition spriteSame :: "World \<Rightarrow> World \<Rightarrow> bool" where
  "spriteSame w w' \<longleftrightarrow>
     runningSpriteAnim w' = runningSpriteAnim w
     \<and> (\<forall>e \<in> set (timers w'). e \<in> set (timers w) \<or> stepOf (snd (snd e)) = None)"

text \<open>The pending timers of one kind of callback, and the \<^verbatim>\<open>setDecorations\<close> calls that
  are not the shake's.\<close>

definition tickTimers :: "World \<Rightarrow> view \<Rightarrow> EffectKind \<Rightarrow> (timer \<times> num \<times> Callback) list" where
  "tickTimers w v kind = filter (\<lambda>e. snd (snd e) = Tick v kind) (timers w)"




text \<open>The entry \<^verbatim>\<open>applyOnce\<close> appends, and the buffer after the push and the
  \<^verbatim>\<open>shift\<close> of the overflow.\<close>

definition newItem :: "World \<Rightarrow> view \<Rightarrow> string option \<Rightarrow> int \<Rightarrow> BufItem" where
  "newItem w v label now =
     \<lparr> opt = \<lparr> ident = nextObject w, range = caretRange w v, content = contentOf label,
               transform = None \<rparr>, createdAt = now \<rparr>"

definition pushCapped :: "Config \<Rightarrow> BufItem list \<Rightarrow> BufItem \<Rightarrow> BufItem list" where
  "pushCapped cfg buf item =
     (if int (length (buf @ [item])) > bufferCap cfg then tl (buf @ [item]) else buf @ [item])"


definition exampleAsset :: Asset where
  "exampleAsset = \<lparr> tscn = \<lparr> atlasBlocks =
       [(''a'', [Num 0, Num 0, Num 8, Num 8]), (''b'', [Num 8, Num 0, Num 8, Num 8]),
        (''c'', [Num 16, Num 0, Num 8, Num 8])],
      animBlock = Some [''b'', ''a'', ''c''], speedMatch = Some (Num 12) \<rparr>, png = ''iVBOR'' \<rparr>"

definition emptyAsset :: Asset where
  "emptyAsset = \<lparr> tscn = \<lparr> atlasBlocks = [], animBlock = None, speedMatch = None \<rparr>, png = ''iVBOR'' \<rparr>"

definition exampleEnv :: Env where
  "exampleEnv = \<lparr> config = defaultConfig, files = (\<lambda>k. Some exampleAsset) \<rparr>"

text \<open>The world after the five \<^verbatim>\<open>setDecorations\<close> calls that open \<^verbatim>\<open>clearAllDecorations\<close>.\<close>

definition clearedShown :: "World \<Rightarrow> view \<Rightarrow> World" where
  "clearedShown w v = w\<lparr> shown := (shown w)(v := (shown w v)(BlipDecoration := [], BoomDecoration := [],
       NewlineDecoration := [], JitterLeft := [], JitterRight := [])),
     calls := calls w @ [(v, BlipDecoration), (v, BoomDecoration), (v, NewlineDecoration),
                         (v, JitterLeft), (v, JitterRight)] \<rparr>"

text \<open>Worlds for the examples. \<open>staleWorld\<close>: a newline, \<^verbatim>\<open>clearAllDecorations\<close>, a second
  newline; the removal timer of the first newline (timer 1, instance 0) is still pending.
  \<open>disposedWorld\<close>: a newline, then the editor is closed, for either host. \<open>fullWorld\<close>: five newlines,
  \<^verbatim>\<open>clearAllDecorations\<close>, five more newlines, then the removal timers of the first five
  fire: the buffer holds five instances and the active count is back to 0. \<open>fiveWorld\<close>:
  five newlines.\<close>

definition staleWorld :: World where
  "staleWorld = run (withEnv exampleEnv
     [Event 1000 (0, 0) (ShowNewline 0 False), Event 1000 (0, 0) Resume,
      Event 1100 (0, 0) (ClearAllDecorations 0),
      Event 1200 (0, 0) (ShowNewline 0 False), Event 1200 (0, 0) Resume]) (initialWorld False)"





text \<open>The entry-point calls on a view: the only events that can start a combo animation
  loop of that view.\<close>

fun firesOn :: "Action \<Rightarrow> view \<Rightarrow> bool" where
  "firesOn (ShowBlip v' showChars shakeFlag charLabel) v = (v' = v)"
| "firesOn (ShowBoom v' showChars shakeFlag charLabel) v = (v' = v)"
| "firesOn (ShowNewline v' shakeFlag) v = (v' = v)"
| "firesOn _ v = False"

text \<open>No combo animation tick of the view and kind is pending.\<close>

definition noTick :: "view \<Rightarrow> EffectKind \<Rightarrow> World \<Rightarrow> bool" where
  "noTick v k w \<longleftrightarrow> (\<forall>e \<in> set (timers w). snd (snd e) \<noteq> Tick v k)"

text \<open>\<open>idleWorld\<close>: a newline at time 1000 whose removal timer has fired at 1350; the
  buffer is empty and the animation tick (timer 0) is still pending.\<close>

definition idleWorld :: World where
  "idleWorld = run (withEnv exampleEnv
     [Event 1000 (0, 0) (ShowNewline 0 False), Event 1000 (0, 0) Resume,
      Event 1350 (0, 0) (Fire 1)]) (initialWorld False)"


text \<open>What a method that plays no sprite leaves alone: the animation decoration, the
  pending continuations, the decoded sprites, the run tables, and the host's view of the
  editor; it adds no sprite-run step.\<close>

definition animSame :: "World \<Rightarrow> World \<Rightarrow> bool" where
  "animSame w w' \<longleftrightarrow>
     (\<forall>v. shown w' v AnimDecoration = shown w v AnimDecoration)
     \<and> microtasks w' = microtasks w \<and> spriteData w' = spriteData w
     \<and> disposed w' = disposed w \<and> caret w' = caret w
     \<and> runningSpriteAnim w' = runningSpriteAnim w
     \<and> (\<forall>e \<in> set (timers w'). e \<in> set (timers w) \<or> stepOf (snd (snd e)) = None)"









section \<open>Basic facts\<close>

lemmas prims = getEditorState_def setState_def setDecorations_def setTimeout_def clearTimeout_def

lemma worldOf_andThen_pres:
  "P (worldOf a) \<Longrightarrow> (\<And>w. P w \<Longrightarrow> P (worldOf (f w))) \<Longrightarrow> P (worldOf (andThen a f))"
  by (cases a) auto

lemma worldOf_tryCatch [simp]: "worldOf (tryCatch a) = worldOf a"
  by (cases a) auto

lemma andThen_weak_cong: "a = b \<Longrightarrow> andThen a f = andThen b f"
  by simp

text \<open>Congruence rules that make the simplifier evaluate a concrete run strictly: the
  argument first, the continuation only once it is applied.\<close>

lemmas evalcongs = andThen_weak_cong let_weak_cong option.case_cong_weak list.case_cong_weak
  Outcome.case_cong_weak prod.case_cong_weak if_weak_cong

lemmas defs = MAX_DECORATIONS_PER_TYPE_def initialState_def getEditorState_def setState_def
  defaultConfig_def maxTrail_def frameMsOf_def getTtl_def decorationOf_def setDecorations_def
  setTimeout_def clearTimeout_def caretRange_def canAddDecoration_def rendered_def
  ensureAnimating_def age_def tick_def splice1_def expire_def contentOf_def bufferCap_def
  applyOnce_def linesOf_def visibleLineRanges_def getDeco_def clearShakeDeco_def applyShake_def
  decayMsOf_def shake_def decodeSprite_def ensureSpriteData_def clearSpriteAnim_def setRun_def
  step_def playSpriteAnim_def playSpriteAnimResume_def labelArg_def showBlip_def showBoom_def
  showNewline_def clearAllDecorations_def pendingTimer_def initialWorld_def

subsection \<open>Frame conditions compose\<close>

lemma comboSame_refl [simp]: "comboSame w w"
  by (simp add: comboSame_def)

lemma comboSame_trans: "comboSame w w1 \<Longrightarrow> comboSame w1 w2 \<Longrightarrow> comboSame w w2"
  by (auto simp: comboSame_def)


lemma tickSame_refl [simp]: "tickSame w w"
  by (simp add: tickSame_def)

lemma tickSame_trans: "tickSame w w1 \<Longrightarrow> tickSame w1 w2 \<Longrightarrow> tickSame w w2"
  unfolding tickSame_def by (simp, blast)

lemma tickSame_andThen:
  "tickSame w (worldOf a) \<Longrightarrow> (\<And>w1. tickSame w1 (worldOf (f w1)))
     \<Longrightarrow> tickSame w (worldOf (andThen a f))"
  by (cases a) (auto intro: tickSame_trans)

lemma spriteSame_refl [simp]: "spriteSame w w"
  by (simp add: spriteSame_def)

lemma spriteSame_trans: "spriteSame w w1 \<Longrightarrow> spriteSame w1 w2 \<Longrightarrow> spriteSame w w2"
  unfolding spriteSame_def by (auto simp: snd_def split: prod.splits) fastforce

lemma spriteSame_andThen:
  "spriteSame w (worldOf a) \<Longrightarrow> (\<And>w1. spriteSame w1 (worldOf (f w1)))
     \<Longrightarrow> spriteSame w (worldOf (andThen a f))"
  by (cases a) (auto intro: spriteSame_trans)



lemma tickInv_same: "tickInv w \<Longrightarrow> tickSame w w' \<Longrightarrow> tickInv w'"
  unfolding tickInv_def tickSame_def by metis


subsection \<open>setDecorations and the shake\<close>

lemma setDecorations_comboSame: "comboSame w (worldOf (setDecorations v d items w))"
  by (simp add: setDecorations_def comboSame_def)

lemma setDecorations_tickSame: "tickSame w (worldOf (setDecorations v d items w))"
  by (simp add: setDecorations_def tickSame_def)

lemma setDecorations_spriteSame: "spriteSame w (worldOf (setDecorations v d items w))"
  by (simp add: setDecorations_def spriteSame_def)

lemma setDecorations_fresh: "freshInv w \<Longrightarrow> freshInv (worldOf (setDecorations v d items w))"
  by (simp add: setDecorations_def freshInv_def)


lemma applyShake_tickSame: "tickSame w (worldOf (applyShake now rnd v w))"
  by (auto simp: tickSame_def applyShake_def prims clearShakeDeco_def getDeco_def Let_def
      split: option.splits)


lemma applyShake_fresh: "freshInv w \<Longrightarrow> freshInv (worldOf (applyShake now rnd v w))"
  by (auto simp: freshInv_def applyShake_def prims clearShakeDeco_def getDeco_def Let_def less_Suc_eq
      split: option.splits)


lemma shake_tickSame: "tickSame w (worldOf (shake cfg now rnd v extendMs w))"
proof -
  let ?w1 = "setState v (\<lambda>st. st\<lparr> shakeEndAt :=
     Some (max (case shakeEndAt st of None \<Rightarrow> 0 | Some e \<Rightarrow> e) (now + max extendMs (decayMsOf cfg))) \<rparr>) w"
  have "tickSame w ?w1" by (simp add: tickSame_def setState_def)
  then show ?thesis
    by (auto simp: shake_def Let_def intro: tickSame_trans applyShake_tickSame)
qed


lemma shake_fresh: "freshInv w \<Longrightarrow> freshInv (worldOf (shake cfg now rnd v extendMs w))"
proof -
  assume a: "freshInv w"
  let ?w1 = "setState v (\<lambda>st. st\<lparr> shakeEndAt :=
     Some (max (case shakeEndAt st of None \<Rightarrow> 0 | Some e \<Rightarrow> e) (now + max extendMs (decayMsOf cfg))) \<rparr>) w"
  have "freshInv ?w1" using a by (simp add: freshInv_def setState_def)
  then show ?thesis
    by (auto simp: shake_def Let_def intro: applyShake_fresh)
qed

subsection \<open>The sprite decoder and player\<close>


lemma ensureSpriteData_tickSame: "tickSame w (worldOf (ensureSpriteData fs kind w))"
  by (auto simp: tickSame_def ensureSpriteData_def Let_def split: option.splits)


lemma ensureSpriteData_fresh: "freshInv w \<Longrightarrow> freshInv (worldOf (ensureSpriteData fs kind w))"
  by (auto simp: freshInv_def ensureSpriteData_def Let_def split: option.splits)


lemma playSpriteAnim_tickSame: "tickSame w (playSpriteAnim fs v kind w)"
  using ensureSpriteData_tickSame[of w fs kind]
  by (auto simp: playSpriteAnim_def tickSame_def split: Outcome.splits)


lemma playSpriteAnim_fresh: "freshInv w \<Longrightarrow> freshInv (playSpriteAnim fs v kind w)"
  by (auto simp: playSpriteAnim_def freshInv_def ensureSpriteData_def Let_def split: Outcome.splits option.splits if_splits)


lemma step_tickSame: "tickSame w (worldOf (step v kind tabId n frameMs cr i w))"
  by (auto simp: tickSame_def step_def prims setRun_def Let_def split: option.splits)

lemma step_fresh: "freshInv w \<Longrightarrow> freshInv (worldOf (step v kind tabId n frameMs cr i w))"
  by (auto simp: freshInv_def step_def prims setRun_def Let_def less_Suc_eq split: option.splits)

lemma stopKinds_fields:
  "editorStates (snd (stopKinds ks m w)) = editorStates w"
  "nextObject (snd (stopKinds ks m w)) = nextObject w"
  "nextTimer (snd (stopKinds ks m w)) = nextTimer w"
  "runningSpriteAnim (snd (stopKinds ks m w)) = runningSpriteAnim w"
  "shown (snd (stopKinds ks m w)) = shown w"
  "calls (snd (stopKinds ks m w)) = calls w"
  "disposed (snd (stopKinds ks m w)) = disposed w"
  "microtasks (snd (stopKinds ks m w)) = microtasks w"
  "spriteData (snd (stopKinds ks m w)) = spriteData w"
  "fileReads (snd (stopKinds ks m w)) = fileReads w"
  "caret (snd (stopKinds ks m w)) = caret w"
  by (induction ks arbitrary: m w; simp add: clearTimeout_def split: option.splits)+

lemma stopKinds_timers:
  "timers (snd (stopKinds ks m w)) = filter (\<lambda>e. \<forall>k \<in> set ks. m k \<noteq> Some (fst e)) (timers w)"
proof (induction ks arbitrary: m w)
  case Nil
  then show ?case by simp
next
  case (Cons k ks)
  show ?case
  proof (cases "m k")
    case None
    then show ?thesis by (auto simp: Cons.IH intro!: filter_cong)
  next
    case (Some t)
    then show ?thesis
      by (auto simp: Cons.IH clearTimeout_def intro!: filter_cong)
  qed
qed

lemma stopKinds_table:
  "fst (stopKinds ks m w) k = (if k \<in> set ks then None else m k)"
proof (induction ks arbitrary: m w)
  case Nil
  then show ?case by simp
next
  case (Cons a ks)
  show ?case
    by (cases "m a") (auto simp: Cons.IH)
qed

declare stopKinds.simps [simp del]


lemma clearSpriteAnim_tickSame: "tickSame w (worldOf (clearSpriteAnim v kind w))"
  by (simp add: tickSame_def clearSpriteAnim_def setDecorations_def stopKinds_fields stopKinds_timers Let_def split: option.splits)

lemma clearSpriteAnim_fresh: "freshInv w \<Longrightarrow> freshInv (worldOf (clearSpriteAnim v kind w))"
  by (simp add: freshInv_def clearSpriteAnim_def setDecorations_def stopKinds_fields stopKinds_timers Let_def distinct_map_filter split: option.splits)


lemma setRun_comboSame: "comboSame w (setRun v tabId kind t w)"
  by (simp add: comboSame_def setRun_def split: option.splits)

lemma setRun_tickSame: "tickSame w (setRun v tabId kind t w)"
  by (simp add: tickSame_def setRun_def split: option.splits)

lemma setRun_fresh: "freshInv w \<Longrightarrow> freshInv (setRun v tabId kind t w)"
  by (simp add: freshInv_def setRun_def split: option.splits)

lemma clearTimeout_comboSame: "comboSame w (clearTimeout t w)"
  by (simp add: comboSame_def clearTimeout_def)

lemma clearTimeout_tickSame: "tickSame w (clearTimeout t w)"
  by (simp add: tickSame_def clearTimeout_def)


lemma clearTimeout_fresh: "freshInv w \<Longrightarrow> freshInv (clearTimeout t w)"
  by (simp add: freshInv_def clearTimeout_def distinct_map_filter)

text \<open>The world \<^verbatim>\<open>playSpriteAnim\<close> hands to its first \<^verbatim>\<open>step\<close>.\<close>

lemma playSpriteAnimResume_cases:
  "playSpriteAnimResume v kind w = Returned w \<or>
   (\<exists>w2 tabId n frameMs cr. playSpriteAnimResume v kind w = step v kind tabId n frameMs cr 0 w2
      \<and> comboSame w w2 \<and> tickSame w w2 \<and> (freshInv w \<longrightarrow> freshInv w2))"
proof (cases "spriteData w kind")
  case None
  then show ?thesis by (simp add: playSpriteAnimResume_def)
next
  case (Some data)
  show ?thesis
  proof (cases "frames data = []")
    case True
    then show ?thesis using Some by (simp add: playSpriteAnimResume_def)
  next
    case False
    define w1 where "w1 = (case runningSpriteAnim w v of
                        Some tab \<Rightarrow> w
                      | None \<Rightarrow> w\<lparr> runningSpriteAnim :=
                                     (runningSpriteAnim w)(v := Some (nextObject w, \<lambda>k. None)),
                                   nextObject := Suc (nextObject w) \<rparr>)"
    define tab where "tab = the (runningSpriteAnim w1 v)"
    define w2 where "w2 = (case snd tab kind of
                        None \<Rightarrow> w1
                      | Some t \<Rightarrow> setRun v (fst tab) kind None (clearTimeout t w1))"
    have eq: "playSpriteAnimResume v kind w =
        step v kind (fst tab) (length (frameUris data)) (frameMsOfFps (fps data)) (caretRange w2 v) 0 w2"
      unfolding playSpriteAnimResume_def Let_def w2_def tab_def w1_def using Some False by simp
    have c1: "comboSame w w1" "tickSame w w1" "freshInv w \<longrightarrow> freshInv w1"
      by (auto simp: w1_def comboSame_def tickSame_def freshInv_def split: option.splits)
    have c2: "comboSame w1 w2" "tickSame w1 w2" "freshInv w1 \<longrightarrow> freshInv w2"
      unfolding w2_def
      by (auto split: option.splits
            intro: comboSame_trans[OF clearTimeout_comboSame setRun_comboSame]
                   tickSame_trans[OF clearTimeout_tickSame setRun_tickSame]
                   setRun_fresh clearTimeout_fresh)
    show ?thesis
      using eq c1 c2 by (blast intro: comboSame_trans tickSame_trans)
  qed
qed


lemma playSpriteAnimResume_tickSame: "tickSame w (worldOf (playSpriteAnimResume v kind w))"
  using playSpriteAnimResume_cases[of v kind w]
  by (auto intro: tickSame_trans[OF _ step_tickSame])

lemma playSpriteAnimResume_fresh: "freshInv w \<Longrightarrow> freshInv (worldOf (playSpriteAnimResume v kind w))"
  using playSpriteAnimResume_cases[of v kind w]
  by (auto intro: step_fresh)


subsection \<open>The combo buffer\<close>

lemma findIndex_Some: "findIndex i bs = Some n \<Longrightarrow> n < length bs \<and> ident (opt (bs ! n)) = i"
  by (induction bs arbitrary: n) (auto split: if_splits option.splits)















lemma expire_tickSame: "tickSame w (worldOf (expire v k i w))"
  by (simp add: tickSame_def expire_def prims Let_def split: option.splits)


lemma expire_fresh: "freshInv w \<Longrightarrow> freshInv (worldOf (expire v k i w))"
  by (simp add: freshInv_def expire_def prims Let_def split: option.splits)





lemma tick_fresh: "freshInv w \<Longrightarrow> freshInv (worldOf (tick cfg now v k w))"
  by (auto simp: freshInv_def tick_def prims Let_def less_Suc_eq distinct_map_filter split: option.splits)

lemma tick_tick:
  "tickInv w \<Longrightarrow> \<forall>e \<in> set (timers w). snd (snd e) \<noteq> Tick v k \<Longrightarrow> tickInv (worldOf (tick cfg now v k w))"
  by (auto simp: tickInv_def tick_def prims Let_def split: option.splits)


lemma ensureAnimating_comboSame: "comboSame w (ensureAnimating cfg v k w)"
  by (simp add: comboSame_def ensureAnimating_def prims Let_def)

lemma ensureAnimating_spriteSame: "spriteSame w (ensureAnimating cfg v k w)"
  by (auto simp: spriteSame_def ensureAnimating_def prims Let_def)

lemma ensureAnimating_fresh: "freshInv w \<Longrightarrow> freshInv (ensureAnimating cfg v k w)"
  by (auto simp: freshInv_def ensureAnimating_def prims Let_def less_Suc_eq)

lemma ensureAnimating_tick: "tickInv w \<Longrightarrow> tickInv (ensureAnimating cfg v k w)"
  by (auto simp: tickInv_def ensureAnimating_def prims Let_def)









lemma applyOnce_fresh: "freshInv w \<Longrightarrow> freshInv (worldOf (applyOnce cfg now v kind label w))"
  by (auto simp: freshInv_def applyOnce_def ensureAnimating_def prims Let_def less_Suc_eq)

lemma applyOnce_tick: "tickInv w \<Longrightarrow> tickInv (worldOf (applyOnce cfg now v kind label w))"
  by (auto simp: tickInv_def applyOnce_def ensureAnimating_def prims Let_def)

lemma stopAnimTimers_fields:
  "nextObject (stopAnimTimers v ks w) = nextObject w"
  "nextTimer (stopAnimTimers v ks w) = nextTimer w"
  "runningSpriteAnim (stopAnimTimers v ks w) = runningSpriteAnim w"
  "shown (stopAnimTimers v ks w) = shown w"
  "calls (stopAnimTimers v ks w) = calls w"
  "disposed (stopAnimTimers v ks w) = disposed w"
  "microtasks (stopAnimTimers v ks w) = microtasks w"
  by (induction ks arbitrary: w; simp add: prims Let_def split: option.splits)+

lemma stopAnimTimers_state:
  "editorStates (stopAnimTimers v ks w) v' =
     (if v' = v then (editorStates w v)\<lparr> animTimers := (\<lambda>k. if k \<in> set ks then None else animTimers (editorStates w v) k) \<rparr>
      else editorStates w v')"
  by (induction ks arbitrary: w) (auto simp: prims Let_def fun_eq_iff split: option.splits intro!: arg_cong2[where f="\<lambda>f st. animTimers_update f st"])

lemma stopAnimTimers_timers:
  "timers (stopAnimTimers v ks w) =
     filter (\<lambda>e. \<forall>k \<in> set ks. animTimers (editorStates w v) k \<noteq> Some (fst e)) (timers w)"
  by (induction ks arbitrary: w) (auto simp: prims Let_def split: option.splits intro!: filter_cong)

declare stopAnimTimers.simps [simp del]

subsection \<open>What the shake leaves alone\<close>

lemma applyShake_state:
  "lastBlipAt (editorStates (worldOf (applyShake now rnd v w)) v') = lastBlipAt (editorStates w v')"
  "lastBoomAt (editorStates (worldOf (applyShake now rnd v w)) v') = lastBoomAt (editorStates w v')"
  "shakeEndAt (editorStates (worldOf (applyShake now rnd v w)) v') = shakeEndAt (editorStates w v')"
  "buffers (editorStates (worldOf (applyShake now rnd v w)) v') = buffers (editorStates w v')"
  "activeDecorations (editorStates (worldOf (applyShake now rnd v w)) v') = activeDecorations (editorStates w v')"
  "animTimers (editorStates (worldOf (applyShake now rnd v w)) v') = animTimers (editorStates w v')"
  by (auto simp: applyShake_def prims clearShakeDeco_def getDeco_def Let_def split: option.splits)






lemma shake_deadline:
  "shakeEndAt (editorStates (worldOf (shake cfg now rnd v extendMs w)) v) =
     Some (max (case shakeEndAt (editorStates w v) of None \<Rightarrow> 0 | Some e \<Rightarrow> e)
               (now + max extendMs (decayMsOf cfg)))"
  by (simp add: shake_def Let_def applyShake_state) (simp add: prims)

lemma resolveFrames_empty: "resolveFrames [] refs = []"
  by (induction refs) auto

lemma decodeSprite_no_frames:
  "frames (decodeSprite a) = [] \<longleftrightarrow> buildAtlasMap (atlasBlocks (tscn a)) [] = []"
  by (auto simp: decodeSprite_def Let_def resolveFrames_empty)

lemma playSpriteAnim_fields:
  "shown (playSpriteAnim fs v kind w) = shown w"
  "calls (playSpriteAnim fs v kind w) = calls w"
  "timers (playSpriteAnim fs v kind w) = timers w"
  "runningSpriteAnim (playSpriteAnim fs v kind w) = runningSpriteAnim w"
  "editorStates (playSpriteAnim fs v kind w) = editorStates w"
  "disposed (playSpriteAnim fs v kind w) = disposed w"
  by (simp_all add: playSpriteAnim_def ensureSpriteData_def Let_def split: option.splits)

subsection \<open>clearAllDecorations\<close>

lemma clearAllDecorations_disposed:
  "disposed w v \<and> strictHost w \<Longrightarrow> clearAllDecorations v w = Returned w"
  by (simp add: clearAllDecorations_def setDecorations_def)

lemma clearAllDecorations_live:
  "\<not> (disposed w v \<and> strictHost w) \<Longrightarrow> clearAllDecorations v w =
     Returned (stopAnimTimers v [Blip, Boom, Newline]
       (setState v (\<lambda>st. st\<lparr> activeDecorations := (\<lambda>k. 0), buffers := (\<lambda>k. []) \<rparr>)
          (if disposed w v then w else clearedShown w v)))"
  by (auto simp: clearAllDecorations_def setDecorations_def clearedShown_def Let_def)

lemma all_kinds: "k \<in> set [Blip, Boom, Newline]"
  by (cases k) auto

lemma clearAllDecorations_state:
  assumes "\<not> (disposed w v \<and> strictHost w)"
  shows "editorStates (worldOf (clearAllDecorations v w)) v' =
     (if v' = v then (editorStates w v)\<lparr> activeDecorations := (\<lambda>k. 0), buffers := (\<lambda>k. []),
                                         animTimers := (\<lambda>k. None) \<rparr>
      else editorStates w v')"
proof -
  have n: "\<And>f. (\<lambda>k. if k \<in> set [Blip, Boom, Newline] then None else f k) = (\<lambda>k. None)"
    using all_kinds by presburger
  show ?thesis
    unfolding clearAllDecorations_live[OF assms] worldOf.simps stopAnimTimers_state n
    by (simp add: setState_def clearedShown_def)
qed

lemma clearAllDecorations_timers:
  assumes "\<not> (disposed w v \<and> strictHost w)"
  shows "timers (worldOf (clearAllDecorations v w)) =
     filter (\<lambda>e. \<forall>k. animTimers (editorStates w v) k \<noteq> Some (fst e)) (timers w)"
proof -
  have n: "\<And>P. (\<forall>k \<in> set [Blip, Boom, Newline]. P k) = (\<forall>k. P k)"
    using all_kinds by blast
  show ?thesis
    unfolding clearAllDecorations_live[OF assms] worldOf.simps stopAnimTimers_timers n
    by (simp add: setState_def clearedShown_def)
qed

lemma clearAllDecorations_fields:
  "nextObject (worldOf (clearAllDecorations v w)) = nextObject w"
  "nextTimer (worldOf (clearAllDecorations v w)) = nextTimer w"
  "runningSpriteAnim (worldOf (clearAllDecorations v w)) = runningSpriteAnim w"
  "disposed (worldOf (clearAllDecorations v w)) = disposed w"
  "microtasks (worldOf (clearAllDecorations v w)) = microtasks w"
  by (cases "disposed w v \<and> strictHost w"; simp add: clearAllDecorations_disposed clearAllDecorations_live stopAnimTimers_fields;
      simp add: setState_def clearedShown_def)+


lemma clearAllDecorations_tick: "tickInv w \<Longrightarrow> tickInv (worldOf (clearAllDecorations v w))"
  by (cases "disposed w v \<and> strictHost w")
     (auto simp: clearAllDecorations_disposed tickInv_def clearAllDecorations_state clearAllDecorations_timers)


lemma clearAllDecorations_fresh: "freshInv w \<Longrightarrow> freshInv (worldOf (clearAllDecorations v w))"
  by (cases "disposed w v \<and> strictHost w")
     (auto simp: clearAllDecorations_disposed freshInv_def clearAllDecorations_fields clearAllDecorations_timers
        distinct_map_filter)

subsection \<open>The entry points preserve what their parts preserve\<close>

lemma showBlip_pres:
  assumes p: "P w"
    and s: "\<And>w. P w \<Longrightarrow> P (setState v (\<lambda>st. st\<lparr> lastBlipAt := now \<rparr>) w)"
    and c: "\<And>w. P w \<Longrightarrow> P (worldOf (clearSpriteAnim v None w))"
    and a: "\<And>w l. P w \<Longrightarrow> P (worldOf (applyOnce cfg now v Blip l w))"
    and y: "\<And>w. P w \<Longrightarrow> P (playSpriteAnim fs v Blip w)"
    and k: "\<And>w. P w \<Longrightarrow> P (worldOf (shake cfg now rnd v 120 w))"
  shows "P (worldOf (showBlip cfg fs now rnd v showChars shakeFlag charLabel w))"
  unfolding showBlip_def Let_def
proof (rule worldOf_andThen_pres[where P = P])
  show "P (worldOf (if 20 \<le> now - lastBlipAt (getEditorState w v)
        then andThen (clearSpriteAnim v None (setState v (\<lambda>st. st\<lparr>lastBlipAt := now\<rparr>) w))
          (\<lambda>w2. andThen (applyOnce cfg now v Blip (labelArg showChars charLabel) w2)
             (\<lambda>w3. Returned (playSpriteAnim fs v Blip w3)))
        else Returned w))"
  proof (cases "20 \<le> now - lastBlipAt (getEditorState w v)")
    case True
    have "P (worldOf (andThen (clearSpriteAnim v None (setState v (\<lambda>st. st\<lparr>lastBlipAt := now\<rparr>) w))
          (\<lambda>w2. andThen (applyOnce cfg now v Blip (labelArg showChars charLabel) w2)
             (\<lambda>w3. Returned (playSpriteAnim fs v Blip w3)))))"
      by (rule worldOf_andThen_pres[where P = P], rule c, rule s, rule p,
          rule worldOf_andThen_pres[where P = P], rule a, assumption, simp add: y)
    then show ?thesis using True by simp
  next
    case False
    then show ?thesis using p by simp
  qed
next
  fix w4 assume "P w4"
  then show "P (worldOf (if shakeFlag then shake cfg now rnd v 120 w4 else Returned w4))"
    by (simp add: k)
qed

lemma showBoom_pres:
  assumes p: "P w"
    and s: "\<And>w. P w \<Longrightarrow> P (setState v (\<lambda>st. st\<lparr> lastBoomAt := now \<rparr>) w)"
    and c: "\<And>w. P w \<Longrightarrow> P (worldOf (clearSpriteAnim v None w))"
    and a: "\<And>w l. P w \<Longrightarrow> P (worldOf (applyOnce cfg now v Boom l w))"
    and y: "\<And>w. P w \<Longrightarrow> P (playSpriteAnim fs v Boom w)"
    and k: "\<And>w. P w \<Longrightarrow> P (worldOf (shake cfg now rnd v 180 w))"
  shows "P (worldOf (showBoom cfg fs now rnd v showChars shakeFlag charLabel w))"
  unfolding showBoom_def Let_def
proof (rule worldOf_andThen_pres[where P = P])
  show "P (worldOf (if 100 \<le> now - lastBoomAt (getEditorState w v)
        then andThen (clearSpriteAnim v None (setState v (\<lambda>st. st\<lparr>lastBoomAt := now\<rparr>) w))
          (\<lambda>w2. andThen (applyOnce cfg now v Boom (labelArg showChars charLabel) w2)
             (\<lambda>w3. Returned (playSpriteAnim fs v Boom w3)))
        else Returned w))"
  proof (cases "100 \<le> now - lastBoomAt (getEditorState w v)")
    case True
    have "P (worldOf (andThen (clearSpriteAnim v None (setState v (\<lambda>st. st\<lparr>lastBoomAt := now\<rparr>) w))
          (\<lambda>w2. andThen (applyOnce cfg now v Boom (labelArg showChars charLabel) w2)
             (\<lambda>w3. Returned (playSpriteAnim fs v Boom w3)))))"
      by (rule worldOf_andThen_pres[where P = P], rule c, rule s, rule p,
          rule worldOf_andThen_pres[where P = P], rule a, assumption, simp add: y)
    then show ?thesis using True by simp
  next
    case False
    then show ?thesis using p by simp
  qed
next
  fix w4 assume "P w4"
  then show "P (worldOf (if shakeFlag then shake cfg now rnd v 180 w4 else Returned w4))"
    by (simp add: k)
qed

lemma showNewline_pres:
  assumes p: "P w"
    and c: "\<And>w. P w \<Longrightarrow> P (worldOf (clearSpriteAnim v None w))"
    and a: "\<And>w l. P w \<Longrightarrow> P (worldOf (applyOnce cfg now v Newline l w))"
    and y: "\<And>w. P w \<Longrightarrow> P (playSpriteAnim fs v Newline w)"
    and k: "\<And>w. P w \<Longrightarrow> P (worldOf (shake cfg now rnd v 140 w))"
  shows "P (worldOf (showNewline cfg fs now rnd v shakeFlag w))"
  unfolding showNewline_def Let_def
  by (rule worldOf_andThen_pres[where P = P], rule c, rule p,
      rule worldOf_andThen_pres[where P = P], rule a, assumption, simp add: y k)

subsection \<open>Every event preserves the invariants\<close>








lemma pendingTimer_mem: "pendingTimer w t = Some cb \<Longrightarrow> \<exists>d. (t, d, cb) \<in> set (timers w)"
  by (auto simp: pendingTimer_def dest: map_of_SomeD)

lemma fired_tick_gone:
  assumes "tickInv w" and "pendingTimer w t = Some (Tick v k)"
  shows "\<forall>e \<in> set (timers (clearTimeout t w)). snd (snd e) \<noteq> Tick v k"
proof -
  obtain d where "(t, d, Tick v k) \<in> set (timers w)"
    using pendingTimer_mem[OF assms(2)] by blast
  then have "animTimers (editorStates w v) k = Some t"
    using assms(1) unfolding tickInv_def by fastforce
  then show ?thesis
    using assms(1) unfolding tickInv_def clearTimeout_def by fastforce
qed

lemma perform_tick:
  assumes inv: "tickInv w"
  shows "tickInv (worldOf (perform env now rnd a w))"
proof (cases a)
  case (ShowBlip v showChars shakeFlag charLabel)
  show ?thesis
    unfolding ShowBlip perform.simps
    by (rule showBlip_pres[where P = tickInv])
       (auto simp: inv applyOnce_tick
          intro: tickInv_same[OF _ clearSpriteAnim_tickSame] tickInv_same[OF _ playSpriteAnim_tickSame]
                 tickInv_same[OF _ shake_tickSame],
        simp add: tickInv_def setState_def)
next
  case (ShowBoom v showChars shakeFlag charLabel)
  show ?thesis
    unfolding ShowBoom perform.simps
    by (rule showBoom_pres[where P = tickInv])
       (auto simp: inv applyOnce_tick
          intro: tickInv_same[OF _ clearSpriteAnim_tickSame] tickInv_same[OF _ playSpriteAnim_tickSame]
                 tickInv_same[OF _ shake_tickSame],
        simp add: tickInv_def setState_def)
next
  case (ShowNewline v shakeFlag)
  show ?thesis
    unfolding ShowNewline perform.simps
    by (rule showNewline_pres[where P = tickInv])
       (auto simp: inv applyOnce_tick
          intro: tickInv_same[OF _ clearSpriteAnim_tickSame] tickInv_same[OF _ playSpriteAnim_tickSame]
                 tickInv_same[OF _ shake_tickSame])
next
  case (ClearAllDecorations v)
  then show ?thesis using inv by (simp add: clearAllDecorations_tick)
next
  case (Fire t)
  show ?thesis
  proof (cases "pendingTimer w t")
    case None
    then show ?thesis using inv Fire by simp
  next
    case (Some cb)
    have c: "tickInv (clearTimeout t w)"
      by (rule tickInv_same[OF inv clearTimeout_tickSame])
    have "tickInv (worldOf (runCallback env now rnd cb (clearTimeout t w)))"
    proof (cases cb)
      case (Tick v k)
      show ?thesis
        unfolding Tick runCallback.simps
        by (rule tick_tick[OF c fired_tick_gone[OF inv Some[unfolded Tick]]])
    qed (auto intro: tickInv_same[OF c expire_tickSame] tickInv_same[OF c step_tickSame]
           tickInv_same[OF c applyShake_tickSame])
    then show ?thesis using Fire Some by simp
  qed
next
  case Resume
  show ?thesis
  proof (cases "microtasks w")
    case Nil
    then show ?thesis using inv Resume by simp
  next
    case (Cons p rest)
    have c: "tickInv (w\<lparr> microtasks := rest \<rparr>)"
      using inv by (simp add: tickInv_def)
    show ?thesis using Resume Cons
      by (cases p) (auto intro: tickInv_same[OF c playSpriteAnimResume_tickSame])
  qed
next
  case (Dispose v)
  then show ?thesis using inv by (simp add: tickInv_def)
next
  case (MoveCaret v p)
  then show ?thesis using inv by (simp add: tickInv_def)
qed

lemma perform_fresh:
  assumes inv: "freshInv w"
  shows "freshInv (worldOf (perform env now rnd a w))"
proof (cases a)
  case (ShowBlip v showChars shakeFlag charLabel)
  show ?thesis
    unfolding ShowBlip perform.simps
    by (rule showBlip_pres[where P = freshInv])
       (auto simp: inv applyOnce_fresh clearSpriteAnim_fresh playSpriteAnim_fresh shake_fresh,
        simp add: freshInv_def setState_def)
next
  case (ShowBoom v showChars shakeFlag charLabel)
  show ?thesis
    unfolding ShowBoom perform.simps
    by (rule showBoom_pres[where P = freshInv])
       (auto simp: inv applyOnce_fresh clearSpriteAnim_fresh playSpriteAnim_fresh shake_fresh,
        simp add: freshInv_def setState_def)
next
  case (ShowNewline v shakeFlag)
  show ?thesis
    unfolding ShowNewline perform.simps
    by (rule showNewline_pres[where P = freshInv])
       (auto simp: inv applyOnce_fresh clearSpriteAnim_fresh playSpriteAnim_fresh shake_fresh)
next
  case (ClearAllDecorations v)
  then show ?thesis using inv by (simp add: clearAllDecorations_fresh)
next
  case (Fire t)
  show ?thesis
  proof (cases "pendingTimer w t")
    case None
    then show ?thesis using inv Fire by simp
  next
    case (Some cb)
    have c: "freshInv (clearTimeout t w)"
      by (rule clearTimeout_fresh[OF inv])
    have "freshInv (worldOf (runCallback env now rnd cb (clearTimeout t w)))"
      by (cases cb) (auto simp: tick_fresh[OF c] expire_fresh[OF c] step_fresh[OF c] applyShake_fresh[OF c])
    then show ?thesis using Fire Some by simp
  qed
next
  case Resume
  show ?thesis
  proof (cases "microtasks w")
    case Nil
    then show ?thesis using inv Resume by simp
  next
    case (Cons p rest)
    have c: "freshInv (w\<lparr> microtasks := rest \<rparr>)"
      using inv by (simp add: freshInv_def)
    show ?thesis using Resume Cons
      by (cases p) (auto intro: playSpriteAnimResume_fresh[OF c])
  qed
next
  case (Dispose v)
  then show ?thesis using inv by (simp add: freshInv_def)
next
  case (MoveCaret v p)
  then show ?thesis using inv by (simp add: freshInv_def)
qed

lemma reachable_tick: "tickInv (run es (initialWorld h))"
proof -
  have "\<And>w. tickInv w \<Longrightarrow> tickInv (run es w)"
  proof (induction es)
    case Nil
    then show ?case by simp
  next
    case (Cons p es)
    obtain env now rnd a where p: "p = (env, Event now rnd a)" by (cases p, cases "snd p") auto
    show ?case
      unfolding p run.simps handle.simps
      by (rule Cons.IH, rule perform_tick, rule Cons.prems)
  qed
  moreover have "tickInv (initialWorld h)"
    by (simp add: tickInv_def initialWorld_def)
  ultimately show ?thesis by blast
qed

lemma reachable_fresh: "freshInv (run es (initialWorld h))"
proof -
  have "\<And>w. freshInv w \<Longrightarrow> freshInv (run es w)"
  proof (induction es)
    case Nil
    then show ?case by simp
  next
    case (Cons p es)
    obtain env now rnd a where p: "p = (env, Event now rnd a)" by (cases p, cases "snd p") auto
    show ?case
      unfolding p run.simps handle.simps
      by (rule Cons.IH, rule perform_fresh, rule Cons.prems)
  qed
  moreover have "freshInv (initialWorld h)"
    by (simp add: freshInv_def initialWorld_def)
  ultimately show ?thesis by blast
qed

subsection \<open>Evaluating the example worlds\<close>

lemma floor_rat_numeral [simp]: "\<lfloor>(numeral a :: rat) / numeral b\<rfloor> = numeral a div numeral b"
  using floor_divide_of_int_eq[of "numeral a" "numeral b", where ?'a = rat] by simp

lemma binade_numeral [simp]:
  "binade (numeral k) a =
     (if 2 \<le> a then binade (pred_numeral k) (a / 2) + 1
      else if a < 1 then binade (pred_numeral k) (a * 2) - 1 else 0)"
  by (simp add: numeral_eq_Suc)

lemmas evals = defs withEnv_def exampleEnv_def exampleAsset_def emptyAsset_def newItem_def pushCapped_def Let_def
  stopKinds.simps stopAnimTimers.simps roundDouble_def roundEven_def pow2_def frameMsOfFps_def

text \<open>Rounding at work: 12 fps give 83 ms a frame; at the double nearest to
  48.78048780487805 the quotient rounds to 20.5 and the frame takes 21 ms, where the
  exact quotient would give 20; and the doubles nearest to 0.1 and 0.2 add up to
  0.30000000000000004.\<close>

lemma rounding_examples:
  "frameMsOfFps (Num 12) = Num 83"
  "roundDouble (4878048780487805 / 100000000000000) = Num (1716310833601561 / 35184372088832)"
  "frameMsOfFps (Num (1716310833601561 / 35184372088832)) = Num 21"
  "\<lfloor>1000 / (1716310833601561 / 35184372088832 :: rat) + 1 / 2\<rfloor> = 20"
  "roundDouble (1 / 10) = Num (3602879701896397 / 36028797018963968)"
  "roundDouble (2 / 10) = Num (3602879701896397 / 18014398509481984)"
  "jadd (Num (3602879701896397 / 36028797018963968)) (Num (3602879701896397 / 18014398509481984))
     = Num (1351079888211149 / 4503599627370496)"
  "roundDouble (30000000000000004 / 100000000000000000) = Num (1351079888211149 / 4503599627370496)"
  by (simp_all add: roundDouble_def roundEven_def pow2_def frameMsOfFps_def Let_def cong: if_weak_cong)


lemma staleWorld_facts:
  "pendingTimer staleWorld 1 = Some (Expire 0 Newline 0)"
  "buffers (getEditorState staleWorld 0) Newline =
     [\<lparr> opt = \<lparr> ident = 2, range = (0, 0), content = Marker, transform = None \<rparr>, createdAt = 1200 \<rparr>]"
  "activeDecorations (getEditorState staleWorld 0) Newline = 1"
  "disposed staleWorld 0 = False"
  unfolding staleWorld_def by (simp_all add: evals cong: evalcongs)





subsection \<open>Removal by identity\<close>







lemma clearTimeout_fields [simp]:
  "editorStates (clearTimeout t w) = editorStates w"
  "disposed (clearTimeout t w) = disposed w"
  "shown (clearTimeout t w) = shown w"
  "calls (clearTimeout t w) = calls w"
  "nextTimer (clearTimeout t w) = nextTimer w"
  "nextObject (clearTimeout t w) = nextObject w"
  "runningSpriteAnim (clearTimeout t w) = runningSpriteAnim w"
  "microtasks (clearTimeout t w) = microtasks w"
  "spriteData (clearTimeout t w) = spriteData w"
  "fileReads (clearTimeout t w) = fileReads w"
  "caret (clearTimeout t w) = caret w"
  by (simp_all add: clearTimeout_def)


subsection \<open>An accepted fire\<close>



subsection \<open>The combo animation loop\<close>

lemma noTick_tickTimers: "noTick v k w \<longleftrightarrow> tickTimers w v k = []"
  by (auto simp: noTick_def tickTimers_def filter_empty_conv)

lemma noTick_same: "noTick v k w \<Longrightarrow> tickSame w w' \<Longrightarrow> noTick v k w'"
  unfolding noTick_def tickSame_def by blast

lemma applyOnce_noTick:
  "noTick v k w \<Longrightarrow> v' \<noteq> v \<Longrightarrow> noTick v k (worldOf (applyOnce cfg now v' k' label w))"
  by (auto simp: noTick_def applyOnce_def ensureAnimating_def prims Let_def)

lemma tick_noTick:
  "noTick v k w \<Longrightarrow> (v', k') \<noteq> (v, k) \<Longrightarrow> noTick v k (worldOf (tick cfg now v' k' w))"
  by (auto simp: noTick_def tick_def prims Let_def split: option.splits)

lemma tick_empty:
  assumes "buffers (editorStates w v) k = []"
  shows "tick cfg now v k w =
     Returned (setState v (\<lambda>st. st\<lparr> animTimers := (animTimers st)(k := None) \<rparr>)
       (case animTimers (editorStates w v) k of Some t \<Rightarrow> clearTimeout t w | None \<Rightarrow> w))"
  using assms by (simp add: tick_def getEditorState_def Let_def)

lemma tick_nonempty:
  assumes "buffers (editorStates w v) k \<noteq> []" and "\<not> disposed w v"
  shows "timers (worldOf (tick cfg now v k w)) = timers w @ [(nextTimer w, Num (of_int (frameMsOf cfg)), Tick v k)]"
    and "animTimers (editorStates (worldOf (tick cfg now v k w)) v) k = Some (nextTimer w)"
    and "shown (worldOf (tick cfg now v k w)) v (decorationOf k)
           = rendered (map (age now (getTtl cfg k)) (buffers (editorStates w v) k))"
  using assms by (simp_all add: tick_def prims Let_def)

lemma tickTimers_le1:
  assumes "freshInv w" and "tickInv w"
  shows "length (tickTimers w v k) \<le> 1"
proof -
  have d: "distinct (map fst (tickTimers w v k))"
    using assms(1) unfolding freshInv_def tickTimers_def by (simp add: distinct_map_filter)
  have "\<forall>e \<in> set (tickTimers w v k). animTimers (editorStates w v) k = Some (fst e)"
    using assms(2) unfolding tickInv_def tickTimers_def by auto
  then have "set (map fst (tickTimers w v k)) \<subseteq> {the (animTimers (editorStates w v) k)}"
    by auto
  then have "card (set (map fst (tickTimers w v k))) \<le> 1"
    by (metis card.empty card.insert finite.emptyI card_mono empty_iff One_nat_def finite.insertI)
  then show ?thesis
    using d by (metis distinct_card length_map)
qed

lemma perform_noTick:
  assumes n: "noTick v k w" and a: "\<not> firesOn a v"
  shows "noTick v k (worldOf (perform env now rnd a w))"
proof (cases a)
  case (ShowBlip v' showChars shakeFlag charLabel)
  then have ne: "v' \<noteq> v" using a by simp
  show ?thesis
    unfolding ShowBlip perform.simps
    by (rule showBlip_pres[where P = "noTick v k"])
       (auto simp: n applyOnce_noTick[OF _ ne]
          intro: noTick_same[OF _ clearSpriteAnim_tickSame] noTick_same[OF _ playSpriteAnim_tickSame]
                 noTick_same[OF _ shake_tickSame],
        simp add: noTick_def setState_def)
next
  case (ShowBoom v' showChars shakeFlag charLabel)
  then have ne: "v' \<noteq> v" using a by simp
  show ?thesis
    unfolding ShowBoom perform.simps
    by (rule showBoom_pres[where P = "noTick v k"])
       (auto simp: n applyOnce_noTick[OF _ ne]
          intro: noTick_same[OF _ clearSpriteAnim_tickSame] noTick_same[OF _ playSpriteAnim_tickSame]
                 noTick_same[OF _ shake_tickSame],
        simp add: noTick_def setState_def)
next
  case (ShowNewline v' shakeFlag)
  then have ne: "v' \<noteq> v" using a by simp
  show ?thesis
    unfolding ShowNewline perform.simps
    by (rule showNewline_pres[where P = "noTick v k"])
       (auto simp: n applyOnce_noTick[OF _ ne]
          intro: noTick_same[OF _ clearSpriteAnim_tickSame] noTick_same[OF _ playSpriteAnim_tickSame]
                 noTick_same[OF _ shake_tickSame])
next
  case (ClearAllDecorations v')
  have "set (timers (worldOf (clearAllDecorations v' w))) \<subseteq> set (timers w)"
    by (cases "disposed w v' \<and> strictHost w") (auto simp: clearAllDecorations_disposed clearAllDecorations_timers)
  then show ?thesis using n ClearAllDecorations unfolding noTick_def by auto
next
  case (Fire t)
  show ?thesis
  proof (cases "pendingTimer w t")
    case None
    then show ?thesis using n Fire by simp
  next
    case (Some cb)
    have c: "noTick v k (clearTimeout t w)"
      by (rule noTick_same[OF n clearTimeout_tickSame])
    have ne: "cb \<noteq> Tick v k"
      using pendingTimer_mem[OF Some] n unfolding noTick_def by fastforce
    have "noTick v k (worldOf (runCallback env now rnd cb (clearTimeout t w)))"
    proof (cases cb)
      case (Tick v' k')
      then have "(v', k') \<noteq> (v, k)" using ne by simp
      then show ?thesis
        unfolding Tick runCallback.simps by (rule tick_noTick[OF c])
    qed (auto intro: noTick_same[OF c expire_tickSame] noTick_same[OF c step_tickSame]
           noTick_same[OF c applyShake_tickSame])
    then show ?thesis using Fire Some by simp
  qed
next
  case Resume
  show ?thesis
  proof (cases "microtasks w")
    case Nil
    then show ?thesis using n Resume by simp
  next
    case (Cons p rest)
    have c: "noTick v k (w\<lparr> microtasks := rest \<rparr>)"
      using n by (simp add: noTick_def)
    show ?thesis using Resume Cons
      by (cases p) (auto intro: noTick_same[OF c playSpriteAnimResume_tickSame])
  qed
next
  case (Dispose v')
  then show ?thesis using n by (simp add: noTick_def)
next
  case (MoveCaret v' p)
  then show ?thesis using n by (simp add: noTick_def)
qed

lemma idleWorld_facts:
  "pendingTimer idleWorld 0 = Some (Tick 0 Newline)"
  "buffers (getEditorState idleWorld 0) Newline = []"
  "tickTimers idleWorld 0 Newline = [(0, Num 50, Tick 0 Newline)]"
  unfolding idleWorld_def by (simp_all add: evals tickTimers_def cong: evalcongs)

lemma staleWorld_tick:
  "pendingTimer staleWorld 3 = Some (Tick 0 Newline)"
  "nextTimer staleWorld = 6"
  unfolding staleWorld_def by (simp_all add: evals cong: evalcongs)

subsection \<open>Sprite runs\<close>

lemma setRun_fields [simp]:
  "timers (setRun v tabId kind t w) = timers w"
  "editorStates (setRun v tabId kind t w) = editorStates w"
  "shown (setRun v tabId kind t w) = shown w"
  "calls (setRun v tabId kind t w) = calls w"
  "disposed (setRun v tabId kind t w) = disposed w"
  "nextTimer (setRun v tabId kind t w) = nextTimer w"
  "nextObject (setRun v tabId kind t w) = nextObject w"
  "microtasks (setRun v tabId kind t w) = microtasks w"
  "spriteData (setRun v tabId kind t w) = spriteData w"
  "caret (setRun v tabId kind t w) = caret w"
  by (simp_all add: setRun_def split: option.splits)














subsection \<open>An accepted fire and the sprite runs\<close>

lemma animSame_refl [simp]: "animSame w w"
  by (simp add: animSame_def)

lemma animSame_trans: "animSame w w1 \<Longrightarrow> animSame w1 w2 \<Longrightarrow> animSame w w2"
  unfolding animSame_def by (intro conjI ballI allI; elim conjE; (simp; fail | metis))

lemma animSame_andThen:
  "animSame w (worldOf a) \<Longrightarrow> (\<And>w1. animSame w1 (worldOf (f w1)))
     \<Longrightarrow> animSame w (worldOf (andThen a f))"
  by (cases a) (auto intro: animSame_trans)



























section \<open>The claims\<close>

text \<open>C8. \<^verbatim>\<open>shake(view, extendMs)\<close> sets the deadline to the maximum of the previous
  deadline (0 when there is none) and \<open>now + max extendMs decayFloor\<close>, where the decay
  floor is the configured \<^verbatim>\<open>shakeDecayMs\<close> (120 by default) and never below 20. The
  deadline never decreases. With a decay setting of at most 140 (the default is 120) and
  no later deadline pending, a trigger with 120 at time \<open>T\<close> followed by a trigger with
  140 at \<open>T + 50\<close> gives the deadline \<open>T + 190\<close>.\<close>

theorem shake_extends_deadline:
  "shakeEndAt (getEditorState (worldOf (shake cfg now rnd v extendMs w)) v) =
     Some (max (case shakeEndAt (getEditorState w v) of None \<Rightarrow> 0 | Some e \<Rightarrow> e)
               (now + max extendMs (decayMsOf cfg)))
   \<and> decayMsOf cfg = max 20 (shakeDecayMs cfg) \<and> decayMsOf defaultConfig = 120
   \<and> (\<forall>e. shakeEndAt (getEditorState w v) = Some e \<longrightarrow>
         (\<exists>e'. shakeEndAt (getEditorState (worldOf (shake cfg now rnd v extendMs w)) v) = Some e' \<and> e \<le> e'))
   \<and> (shakeDecayMs cfg \<le> 140
        \<and> (case shakeEndAt (getEditorState w v) of None \<Rightarrow> 0 | Some e \<Rightarrow> e) \<le> T + 190 \<longrightarrow>
       shakeEndAt (getEditorState
          (worldOf (shake cfg (T + 50) rnd' v 140 (worldOf (shake cfg T rnd v 120 w)))) v)
         = Some (T + 190))"
  by (auto simp: getEditorState_def shake_deadline decayMsOf_def defaultConfig_def)

theorem shake_extends_deadline_witness:
  "shakeDecayMs defaultConfig \<le> 140
   \<and> (case shakeEndAt (getEditorState (initialWorld False) 0) of None \<Rightarrow> 0 | Some e \<Rightarrow> e) \<le> 1000 + 190
   \<and> shakeEndAt (getEditorState
        (worldOf (shake defaultConfig (1000 + 50) (0, 6) 0 140
           (worldOf (shake defaultConfig 1000 (6, 0) 0 120 (initialWorld False))))) 0) = Some (1000 + 190)"
  using shake_extends_deadline[of defaultConfig 1000 "(6, 0)" 0 120 "initialWorld False" 1000 "(0, 6)"]
  by (simp add: defaultConfig_def initialWorld_def initialState_def getEditorState_def)



text \<open>C10. When the decoded sprite data of a kind has no frames, the body of
  \<^verbatim>\<open>playSpriteAnim\<close> after the decode returns at once: the world is unchanged, so
  nothing is rendered and no frame timer is scheduled, and no exception is raised. The
  decoded data has no frames exactly when the scene text yields no region declaration
  (of at least four numbers); for such an asset the call of \<^verbatim>\<open>playSpriteAnim\<close> only
  decodes and caches.\<close>

theorem sprite_without_frames_plays_nothing:
  "(spriteData w kind = Some d \<and> frames d = [] \<longrightarrow> playSpriteAnimResume v kind w = Returned w)
   \<and> (frames (decodeSprite a) = [] \<longleftrightarrow> buildAtlasMap (atlasBlocks (tscn a)) [] = [])
   \<and> (atlasBlocks (tscn a) = [] \<longrightarrow> frames (decodeSprite a) = [])
   \<and> (spriteData w kind = None \<and> fs kind = Some a \<and> atlasBlocks (tscn a) = [] \<longrightarrow>
        (let w1 = playSpriteAnim fs v kind w
         in microtasks w1 = microtasks w @ [(v, kind)]
            \<and> playSpriteAnimResume v kind w1 = Returned w1
            \<and> shown w1 = shown w \<and> calls w1 = calls w \<and> timers w1 = timers w
            \<and> runningSpriteAnim w1 = runningSpriteAnim w))"
  by (auto simp: playSpriteAnimResume_def decodeSprite_no_frames playSpriteAnim_fields Let_def)
     (auto simp: playSpriteAnim_def ensureSpriteData_def decodeSprite_no_frames Let_def)

theorem sprite_without_frames_plays_nothing_witness:
  "spriteData (initialWorld False) Boom = None \<and> (\<lambda>k. Some emptyAsset) Boom = Some emptyAsset
   \<and> atlasBlocks (tscn emptyAsset) = []
   \<and> (let w1 = playSpriteAnim (\<lambda>k. Some emptyAsset) 0 Boom (initialWorld False)
      in playSpriteAnimResume 0 Boom w1 = Returned w1 \<and> shown w1 = shown (initialWorld False)
         \<and> timers w1 = [])"
  using sprite_without_frames_plays_nothing[of "initialWorld False" Boom _ 0 emptyAsset "\<lambda>k. Some emptyAsset"]
  by (simp add: emptyAsset_def initialWorld_def Let_def)













text \<open>C9. In every reachable world at most one combo animation tick is pending for a view
  and kind. When the pending tick fires and finds the buffer empty, it deletes its
  handle, renders nothing and schedules nothing: afterwards no tick of that view and kind
  is pending. When it finds the buffer non-empty (on a live view) it re-renders the aged
  buffer and schedules exactly one next tick. While no tick is pending, no event other
  than a \<^verbatim>\<open>showBlip\<close>, \<^verbatim>\<open>showBoom\<close> or \<^verbatim>\<open>showNewline\<close> call on that view makes one
  pending. While a tick is pending, the handle is stored and \<^verbatim>\<open>ensureAnimating\<close> changes
  nothing.\<close>

theorem combo_animation_loop:
  assumes "w = run es (initialWorld h)"
  shows "length (tickTimers w v kind) \<le> 1
     \<and> (pendingTimer w t = Some (Tick v kind) \<and> buffers (getEditorState w v) kind = [] \<longrightarrow>
          tickTimers (handle env (Event now rnd (Fire t)) w) v kind = []
          \<and> animTimers (getEditorState (handle env (Event now rnd (Fire t)) w) v) kind = None
          \<and> calls (handle env (Event now rnd (Fire t)) w) = calls w
          \<and> shown (handle env (Event now rnd (Fire t)) w) = shown w
          \<and> nextTimer (handle env (Event now rnd (Fire t)) w) = nextTimer w)
     \<and> (pendingTimer w t = Some (Tick v kind) \<and> buffers (getEditorState w v) kind \<noteq> []
          \<and> \<not> disposed w v \<longrightarrow>
          tickTimers (handle env (Event now rnd (Fire t)) w) v kind
            = [(nextTimer w, Num (of_int (frameMsOf (config env))), Tick v kind)]
          \<and> animTimers (getEditorState (handle env (Event now rnd (Fire t)) w) v) kind
            = Some (nextTimer w)
          \<and> shown (handle env (Event now rnd (Fire t)) w) v (decorationOf kind)
            = rendered (map (age now (getTtl (config env) kind)) (buffers (getEditorState w v) kind)))
     \<and> (tickTimers w v kind = [] \<and> \<not> firesOn a v \<longrightarrow>
          tickTimers (handle env (Event now rnd a) w) v kind = [])
     \<and> (tickTimers w v kind \<noteq> [] \<longrightarrow>
          animTimers (getEditorState w v) kind \<noteq> None \<and> ensureAnimating cfg v kind w = w)"
proof -
  have fr: "freshInv w" and ti: "tickInv w"
    unfolding assms by (rule reachable_fresh, rule reachable_tick)
  have one: "length (tickTimers w v kind) \<le> 1"
    by (rule tickTimers_le1[OF fr ti])
  have empty: "pendingTimer w t = Some (Tick v kind) \<and> buffers (getEditorState w v) kind = [] \<longrightarrow>
          tickTimers (handle env (Event now rnd (Fire t)) w) v kind = []
          \<and> animTimers (getEditorState (handle env (Event now rnd (Fire t)) w) v) kind = None
          \<and> calls (handle env (Event now rnd (Fire t)) w) = calls w
          \<and> shown (handle env (Event now rnd (Fire t)) w) = shown w
          \<and> nextTimer (handle env (Event now rnd (Fire t)) w) = nextTimer w"
  proof
    assume h: "pendingTimer w t = Some (Tick v kind) \<and> buffers (getEditorState w v) kind = []"
    then have p: "pendingTimer w t = Some (Tick v kind)"
      and b: "buffers (editorStates (clearTimeout t w) v) kind = []"
      by (simp_all add: getEditorState_def)
    have gone: "noTick v kind (clearTimeout t w)"
      unfolding noTick_def by (rule fired_tick_gone[OF ti p])
    have eq: "handle env (Event now rnd (Fire t)) w = worldOf (tick (config env) now v kind (clearTimeout t w))"
      using p by simp
    have g2: "noTick v kind (worldOf (tick (config env) now v kind (clearTimeout t w)))"
      unfolding tick_empty[OF b] using gone
      by (auto simp: noTick_def setState_def clearTimeout_def split: option.splits)
    show "tickTimers (handle env (Event now rnd (Fire t)) w) v kind = []
          \<and> animTimers (getEditorState (handle env (Event now rnd (Fire t)) w) v) kind = None
          \<and> calls (handle env (Event now rnd (Fire t)) w) = calls w
          \<and> shown (handle env (Event now rnd (Fire t)) w) = shown w
          \<and> nextTimer (handle env (Event now rnd (Fire t)) w) = nextTimer w"
      unfolding eq using g2[unfolded noTick_tickTimers]
      by (simp add: tick_empty[OF b] getEditorState_def setState_def split: option.splits)
  qed
  have nonempty: "pendingTimer w t = Some (Tick v kind) \<and> buffers (getEditorState w v) kind \<noteq> []
          \<and> \<not> disposed w v \<longrightarrow>
          tickTimers (handle env (Event now rnd (Fire t)) w) v kind
            = [(nextTimer w, Num (of_int (frameMsOf (config env))), Tick v kind)]
          \<and> animTimers (getEditorState (handle env (Event now rnd (Fire t)) w) v) kind
            = Some (nextTimer w)
          \<and> shown (handle env (Event now rnd (Fire t)) w) v (decorationOf kind)
            = rendered (map (age now (getTtl (config env) kind)) (buffers (getEditorState w v) kind))"
  proof
    assume h: "pendingTimer w t = Some (Tick v kind) \<and> buffers (getEditorState w v) kind \<noteq> []
          \<and> \<not> disposed w v"
    then have p: "pendingTimer w t = Some (Tick v kind)"
      and b: "buffers (editorStates (clearTimeout t w) v) kind \<noteq> []"
      and d: "\<not> disposed (clearTimeout t w) v"
      by (simp_all add: getEditorState_def)
    have gone: "tickTimers (clearTimeout t w) v kind = []"
      unfolding noTick_tickTimers[symmetric] noTick_def by (rule fired_tick_gone[OF ti p])
    have eq: "handle env (Event now rnd (Fire t)) w = worldOf (tick (config env) now v kind (clearTimeout t w))"
      using p by simp
    show "tickTimers (handle env (Event now rnd (Fire t)) w) v kind
            = [(nextTimer w, Num (of_int (frameMsOf (config env))), Tick v kind)]
          \<and> animTimers (getEditorState (handle env (Event now rnd (Fire t)) w) v) kind
            = Some (nextTimer w)
          \<and> shown (handle env (Event now rnd (Fire t)) w) v (decorationOf kind)
            = rendered (map (age now (getTtl (config env) kind)) (buffers (getEditorState w v) kind))"
      unfolding eq using gone tick_nonempty[OF b d, of "config env" now]
      by (simp add: tickTimers_def getEditorState_def)
  qed
  have quiet: "tickTimers w v kind = [] \<and> \<not> firesOn a v \<longrightarrow>
          tickTimers (handle env (Event now rnd a) w) v kind = []"
    using perform_noTick[of v kind w a env now rnd] by (simp add: noTick_tickTimers)
  have single: "tickTimers w v kind \<noteq> [] \<longrightarrow>
          animTimers (getEditorState w v) kind \<noteq> None \<and> ensureAnimating cfg v kind w = w"
  proof
    assume "tickTimers w v kind \<noteq> []"
    then obtain e where "e \<in> set (timers w)" "snd (snd e) = Tick v kind"
      unfolding tickTimers_def by (auto simp: filter_empty_conv)
    then have "animTimers (editorStates w v) kind = Some (fst e)"
      using ti unfolding tickInv_def by blast
    then show "animTimers (getEditorState w v) kind \<noteq> None \<and> ensureAnimating cfg v kind w = w"
      by (simp add: ensureAnimating_def getEditorState_def)
  qed
  show ?thesis using one empty nonempty quiet single by blast
qed

theorem combo_animation_loop_witness:
  "pendingTimer idleWorld 0 = Some (Tick 0 Newline)
   \<and> buffers (getEditorState idleWorld 0) Newline = []
   \<and> tickTimers idleWorld 0 Newline = [(0, Num 50, Tick 0 Newline)]
   \<and> tickTimers (handle exampleEnv (Event 1400 (0, 0) (Fire 0)) idleWorld) 0 Newline = []
   \<and> pendingTimer staleWorld 3 = Some (Tick 0 Newline)
   \<and> buffers (getEditorState staleWorld 0) Newline \<noteq> [] \<and> \<not> disposed staleWorld 0
   \<and> tickTimers (handle exampleEnv (Event 1250 (0, 0) (Fire 3)) staleWorld) 0 Newline
       = [(6, Num 50, Tick 0 Newline)]"
proof -
  note c2 = conjunct2
  note t = combo_animation_loop[OF idleWorld_def, where v = 0 and kind = Newline and t = 0 and now = 1400
      and rnd = "(0, 0)" and env = exampleEnv]
  note u = combo_animation_loop[OF staleWorld_def, where v = 0 and kind = Newline and t = 3 and now = 1250
      and rnd = "(0, 0)" and env = exampleEnv]
  have a: "tickTimers (handle exampleEnv (Event 1400 (0, 0) (Fire 0)) idleWorld) 0 Newline = []"
    using t[THEN c2, THEN conjunct1] idleWorld_facts(1,2) by blast
  have b: "tickTimers (handle exampleEnv (Event 1250 (0, 0) (Fire 3)) staleWorld) 0 Newline
       = [(nextTimer staleWorld, Num (of_int (frameMsOf (config exampleEnv))), Tick 0 Newline)]"
    using u[THEN c2, THEN c2, THEN conjunct1] staleWorld_tick(1) staleWorld_facts(2,4) by simp
  show ?thesis
    using a b idleWorld_facts staleWorld_tick staleWorld_facts(2,4)
    by (simp add: frameMsOf_def exampleEnv_def defaultConfig_def)
qed






end
